theory Spec2Isabelle
  imports Complex_Main
begin

section \<open>The file and folder menus of the publisher plugin\<close>

text \<open>
  This theory embeds \<^verbatim>\<open>src/commands/file_menu.ts\<close>: the five exported functions
  \<^verbatim>\<open>shareFolderRepo\<close>, \<^verbatim>\<open>addSubMenuCommandsFolder\<close>, \<^verbatim>\<open>addMenuFile\<close>,
  \<^verbatim>\<open>subMenuCommandsFile\<close> and \<^verbatim>\<open>addMenuFolder\<close>, and the click handlers they
  install. The menus and menu items of the host application are mutable objects, so
  they live in an explicit store; the functions imported from the other modules of the
  plugin are parameters that may throw; every call of one of them is recorded in a log
  kept in the store.
\<close>

subsection \<open>Values of the frontmatter\<close>

text \<open>
  A frontmatter is a plain object read from YAML. The code only reads properties of it
  and tests them for truthiness. A number is a double: a finite number, NaN or an
  infinity. \<open>JNative\<close> stands for the functions and the object that every plain object
  inherits from \<^verbatim>\<open>Object.prototype\<close>. \<^verbatim>\<open>undefined\<close> is \<open>None\<close>.
\<close>

datatype jsval =
    JNull
  | JBool bool
  | JNum real
  | JNaN
  | JInfinity bool
  | JStr string
  | JArr "jsval list"
  | JObj "(string \<times> jsval) list"
  | JNative

fun truthy :: "jsval option \<Rightarrow> bool" where
  "truthy None = False"
| "truthy (Some JNull) = False"
| "truthy (Some (JBool b)) = b"
| "truthy (Some (JNum x)) = (x \<noteq> 0)"
| "truthy (Some JNaN) = False"
| "truthy (Some (JInfinity negative)) = True"
| "truthy (Some (JStr s)) = (s \<noteq> [])"
| "truthy (Some (JArr xs)) = True"
| "truthy (Some (JObj kvs)) = True"
| "truthy (Some JNative) = True"

type_synonym FrontMatterCache = "(string \<times> jsval) list"

text \<open>The names of the properties of \<^verbatim>\<open>Object.prototype\<close>.\<close>

definition objectPrototype :: "string list" where
  "objectPrototype =
     [''constructor'', ''toString'', ''toLocaleString'', ''valueOf'', ''hasOwnProperty'',
      ''isPrototypeOf'', ''propertyIsEnumerable'', ''__proto__'', ''__defineGetter__'',
      ''__defineSetter__'', ''__lookupGetter__'', ''__lookupSetter__'']"

text \<open>
  \<^verbatim>\<open>frontmatter?.[key]\<close>: \<^verbatim>\<open>undefined\<close> when there is no frontmatter; otherwise the
  property of that name of the object itself, or else the one it inherits from
  \<^verbatim>\<open>Object.prototype\<close>, or else \<^verbatim>\<open>undefined\<close>.
\<close>

definition getProp :: "FrontMatterCache option \<Rightarrow> string \<Rightarrow> jsval option" where
  "getProp fm key =
     (case fm of
        None \<Rightarrow> None
      | Some kvs \<Rightarrow>
          (case map_of kvs key of
             Some v \<Rightarrow> Some v
           | None \<Rightarrow> if key \<in> set objectPrototype then Some JNative else None))"

record CachedMetadata =
  cm_frontmatter :: "FrontMatterCache option"

subsection \<open>Files, repositories and settings\<close>

record TFile =
  path :: string
  basename :: string

record TFolder =
  name :: string

text \<open>
  \<^verbatim>\<open>addMenuFile\<close> tests \<^verbatim>\<open>file instanceof TFile\<close>, so what it receives is either.
\<close>

datatype TAbstractFile = File TFile | Folder TFolder

text \<open>\<^verbatim>\<open>file.basename\<close>, which a folder does not have.\<close>

fun basenameOf :: "TAbstractFile \<Rightarrow> string option" where
  "basenameOf (File f) = Some (basename f)"
| "basenameOf (Folder d) = None"

record ShareAll =
  enable :: bool

text \<open>
  Of a \<^verbatim>\<open>Repository\<close> the module reads \<^verbatim>\<open>smartKey\<close>, \<^verbatim>\<open>shareKey\<close>,
  \<^verbatim>\<open>createShortcuts\<close> and \<^verbatim>\<open>shareAll?.enable\<close>; of a \<^verbatim>\<open>RepoFrontmatter\<close> its
  \<^verbatim>\<open>repo\<close> (the field \<open>rf_repo\<close>). The settings are flattened:
  \<open>github_otherRepo\<close> is \<^verbatim>\<open>settings.github.otherRepo\<close>, and \<open>plugin_fileMenu\<close>,
  \<open>plugin_shareKey\<close>, \<open>plugin_shareAll\<close> are the fields of \<^verbatim>\<open>settings.plugin\<close>.
\<close>

record Repository =
  smartKey :: string
  shareKey :: string
  createShortcuts :: bool
  shareAll :: "ShareAll option"

record RepoFrontmatter =
  rf_owner :: string
  rf_repo :: string
  rf_branch :: string

text \<open>\<^verbatim>\<open>getRepoFrontmatter\<close> returns \<^verbatim>\<open>RepoFrontmatter | RepoFrontmatter[]\<close>.\<close>

datatype RepoFrontmatters = One RepoFrontmatter | Many "RepoFrontmatter list"

record MonoRepoProperties =
  mono_frontmatter :: RepoFrontmatters
  mono_repo :: "Repository option"

record GitHubPublisherSettings =
  github_otherRepo :: "Repository list"
  plugin_fileMenu :: bool
  plugin_shareKey :: string
  plugin_shareAll :: "ShareAll option"

text \<open>\<^verbatim>\<open>x.shareAll?.enable\<close> as a condition.\<close>

definition shareAllEnabled :: "ShareAll option \<Rightarrow> bool" where
  "shareAllEnabled sa = (case sa of None \<Rightarrow> False | Some a \<Rightarrow> enable a)"

text \<open>Handles of the objects the module only passes on.\<close>

datatype GithubBranch = GithubBranch nat

datatype HTMLElement = HTMLElement nat

subsection \<open>Errors, the log of calls, click handlers\<close>

datatype error = TypeError string | Error string

text \<open>
  The arrow functions given to \<^verbatim>\<open>onClick\<close> are closures; a handler is one of them
  with the variables it captured. The lines are those of \<^verbatim>\<open>file_menu.ts\<close>.
\<close>

datatype handler =
    ShareFolderDefault TFolder string
      \<comment> \<open>lines 55-58 and 304-307: \<^verbatim>\<open>folder\<close>, \<^verbatim>\<open>branchName\<close>\<close>
  | ShareFolderOther TFolder string Repository
      \<comment> \<open>lines 70-72: \<^verbatim>\<open>folder\<close>, \<^verbatim>\<open>branchName\<close>, \<^verbatim>\<open>otherRepo\<close>\<close>
  | ChooseFolder TFolder string
      \<comment> \<open>lines 80-85: \<^verbatim>\<open>folder\<close>, \<^verbatim>\<open>branchName\<close>\<close>
  | ShareFile string TAbstractFile "Repository option" string
      \<comment> \<open>lines 146-154, 212-220, 234-242: \<^verbatim>\<open>branchName\<close>, \<^verbatim>\<open>file\<close>, the repository, \<^verbatim>\<open>fileName\<close>\<close>
  | ShareFileDefault string TAbstractFile string
      \<comment> \<open>lines 189-197: \<^verbatim>\<open>branchName\<close>, \<^verbatim>\<open>file\<close>, \<^verbatim>\<open>fileName\<close>\<close>
  | ChooseFile "Repository option" string TAbstractFile string
      \<comment> \<open>lines 251-261: \<^verbatim>\<open>repo\<close>, \<^verbatim>\<open>branchName\<close>, \<^verbatim>\<open>file\<close>, \<^verbatim>\<open>fileName\<close>\<close>

text \<open>One constructor for each function of another module that the code calls.\<close>

datatype call =
    GetRepoSharedKey
  | MultipleSharedKey
  | IsShared
  | GetRepoFrontmatter
  | DefaultRepo
  | GetTitleFieldForCommand
  | ReloadOctokit
  | AddStatusBarItem
  | GetSharedFileOfFolder
  | ShareOneNote string GithubBranch TAbstractFile "Repository option" string
  | ShareAllMarkedNotes GithubBranch HTMLElement string MonoRepoProperties "TFile list" bool
  | ChooseRepoToRun "string option" string string "string option"

subsection \<open>The store of the host: menus and menu items\<close>

record MenuItem =
  title :: "string option"
  icon :: "string option"
  sectionName :: "string option"
  isLabel :: bool
  onClick :: "handler option"
  submenu :: "nat option"

datatype entry = ItemEntry nat | Separator

record host =
  menus :: "nat \<Rightarrow> entry list"
  n_menus :: nat
  items :: "nat \<Rightarrow> MenuItem"
  n_items :: nat
  calls :: "(call \<times> error option) list"

definition newItem :: MenuItem where
  "newItem = \<lparr>title = None, icon = None, sectionName = None, isLabel = False,
     onClick = None, submenu = None\<rparr>"

text \<open>
  A computation changes the store and returns a value or throws. The store it leaves
  behind when it throws is the store at the throw: JavaScript undoes nothing.
\<close>

type_synonym 'a action = "host \<Rightarrow> (error + 'a) \<times> host"

definition succeed :: "'a \<Rightarrow> 'a action" where
  "succeed x = (\<lambda>h. (Inr x, h))"

definition throw :: "error \<Rightarrow> 'a action" where
  "throw e = (\<lambda>h. (Inl e, h))"

definition andThen :: "'a action \<Rightarrow> ('a \<Rightarrow> 'b action) \<Rightarrow> 'b action" where
  "andThen m f = (\<lambda>h. case m h of (Inl e, h') \<Rightarrow> (Inl e, h') | (Inr x, h') \<Rightarrow> f x h')"

definition seq :: "'a action \<Rightarrow> 'b action \<Rightarrow> 'b action" where
  "seq m n = andThen m (\<lambda>_. n)"

text \<open>A call of a function of another module: logged with its outcome.\<close>

definition outcome :: "error + 'a \<Rightarrow> error option" where
  "outcome r = (case r of Inl e \<Rightarrow> Some e | Inr _ \<Rightarrow> None)"

definition collab :: "call \<Rightarrow> error + 'a \<Rightarrow> 'a action" where
  "collab c r = (\<lambda>h. (r, h\<lparr>calls := calls h @ [(c, outcome r)]\<rparr>))"

text \<open>\<^verbatim>\<open>xs.forEach(f)\<close>.\<close>

fun forEach :: "'a list \<Rightarrow> ('a \<Rightarrow> unit action) \<Rightarrow> unit action" where
  "forEach [] f = succeed ()"
| "forEach (x # xs) f = seq (f x) (forEach xs f)"

text \<open>
  The menu interface of the host. \<^verbatim>\<open>menu.addItem(cb)\<close> creates an item, appends it to
  the menu and runs the callback on it at once; \<^verbatim>\<open>item.setSubmenu()\<close> gives the item
  a new, empty menu and returns it; the setters store their argument.
\<close>

definition addItem :: "nat \<Rightarrow> (nat \<Rightarrow> unit action) \<Rightarrow> unit action" where
  "addItem menu cb = (\<lambda>h.
     let item = n_items h in
     cb item (h\<lparr>items := (items h)(item := newItem), n_items := Suc item,
                menus := (menus h)(menu := menus h menu @ [ItemEntry item])\<rparr>))"

definition addSeparator :: "nat \<Rightarrow> unit action" where
  "addSeparator menu = (\<lambda>h. (Inr (), h\<lparr>menus := (menus h)(menu := menus h menu @ [Separator])\<rparr>))"

definition setSubmenu :: "nat \<Rightarrow> nat action" where
  "setSubmenu item = (\<lambda>h.
     let sub = n_menus h in
     (Inr sub, h\<lparr>menus := (menus h)(sub := []), n_menus := Suc sub,
                 items := (items h)(item := (items h item)\<lparr>submenu := Some sub\<rparr>)\<rparr>))"

definition setTitle :: "nat \<Rightarrow> string \<Rightarrow> unit action" where
  "setTitle item s = (\<lambda>h. (Inr (), h\<lparr>items := (items h)(item := (items h item)\<lparr>title := Some s\<rparr>)\<rparr>))"

definition setIcon :: "nat \<Rightarrow> string \<Rightarrow> unit action" where
  "setIcon item s = (\<lambda>h. (Inr (), h\<lparr>items := (items h)(item := (items h item)\<lparr>icon := Some s\<rparr>)\<rparr>))"

definition setSection :: "nat \<Rightarrow> string \<Rightarrow> unit action" where
  "setSection item s =
     (\<lambda>h. (Inr (), h\<lparr>items := (items h)(item := (items h item)\<lparr>sectionName := Some s\<rparr>)\<rparr>))"

definition setIsLabel :: "nat \<Rightarrow> bool \<Rightarrow> unit action" where
  "setIsLabel item b = (\<lambda>h. (Inr (), h\<lparr>items := (items h)(item := (items h item)\<lparr>isLabel := b\<rparr>)\<rparr>))"

definition setOnClick :: "nat \<Rightarrow> handler \<Rightarrow> unit action" where
  "setOnClick item f =
     (\<lambda>h. (Inr (), h\<lparr>items := (items h)(item := (items h item)\<lparr>onClick := Some f\<rparr>)\<rparr>))"

subsection \<open>The plugin and the imported functions\<close>

text \<open>
  \<open>getFileCache\<close> is \<^verbatim>\<open>plugin.app.metadataCache.getFileCache\<close>, which returns
  \<^verbatim>\<open>null\<close> for a file it has no entry for.
\<close>

record GithubPublisher =
  settings :: GitHubPublisherSettings
  getFileCache :: "TAbstractFile \<Rightarrow> CachedMetadata option"
  getTitleFieldForCommand :: "TAbstractFile \<Rightarrow> FrontMatterCache option \<Rightarrow> error + string"
  reloadOctokit :: "error + GithubBranch"
  addStatusBarItem :: "error + HTMLElement"

text \<open>
  The imports of the module: \<^verbatim>\<open>Platform.isDesktop\<close>, \<^verbatim>\<open>i18next.t\<close> (key and
  interpolation values), \<^verbatim>\<open>String.prototype.toUpperCase\<close>, and the functions of
  \<^verbatim>\<open>../utils\<close>, \<^verbatim>\<open>../utils/data_validation_test\<close>, \<^verbatim>\<open>./commands\<close> and
  \<^verbatim>\<open>./suggest_other_repo_commands_modal\<close>. \<open>openChooseRepoToRun\<close> is
  \<^verbatim>\<open>new ChooseRepoToRun(...).open()\<close>; the callback given to it is run by
  \<open>onChosen\<close> below.
\<close>

record modules =
  isDesktop :: bool
  i18n_t :: "string \<Rightarrow> (string \<times> string) list \<Rightarrow> string"
  toUpperCase :: "string \<Rightarrow> string"
  getRepoFrontmatter ::
    "GitHubPublisherSettings \<Rightarrow> Repository option \<Rightarrow> FrontMatterCache option \<Rightarrow> error + RepoFrontmatters"
  getRepoSharedKey ::
    "GitHubPublisherSettings \<Rightarrow> FrontMatterCache option \<Rightarrow> error + Repository option"
  multipleSharedKey ::
    "FrontMatterCache option \<Rightarrow> GitHubPublisherSettings \<Rightarrow> error + string list"
  isShared ::
    "FrontMatterCache option \<Rightarrow> GitHubPublisherSettings \<Rightarrow> TAbstractFile \<Rightarrow> Repository option
      \<Rightarrow> error + bool"
  defaultRepo :: "GitHubPublisherSettings \<Rightarrow> error + Repository"
  getSharedFileOfFolder :: "GithubBranch \<Rightarrow> TFolder \<Rightarrow> Repository option \<Rightarrow> error + TFile list"
  shareOneNote ::
    "string \<Rightarrow> GithubBranch \<Rightarrow> TAbstractFile \<Rightarrow> Repository option \<Rightarrow> string \<Rightarrow> error + unit"
  shareAllMarkedNotes ::
    "GithubBranch \<Rightarrow> HTMLElement \<Rightarrow> string \<Rightarrow> MonoRepoProperties \<Rightarrow> TFile list \<Rightarrow> bool
      \<Rightarrow> error + unit"
  openChooseRepoToRun ::
    "string option \<Rightarrow> string \<Rightarrow> string \<Rightarrow> string option \<Rightarrow> error + unit"

text \<open>\<^verbatim>\<open>s.replace(pat, rep)\<close> for a string pattern: the first occurrence only.\<close>

fun replaceFirst :: "string \<Rightarrow> string \<Rightarrow> string \<Rightarrow> string" where
  "replaceFirst pat rep [] = (if pat = [] then rep else [])"
| "replaceFirst pat rep (c # cs) =
     (if take (length pat) (c # cs) = pat then rep @ drop (length pat) (c # cs)
      else c # replaceFirst pat rep cs)"

text \<open>
  The three texts the module asks \<^verbatim>\<open>i18next\<close> for:
  \<^verbatim>\<open>i18next.t("commands.shareViewFiles.multiple.on", {smartKey, doc})\<close>,
  \<^verbatim>\<open>i18next.t("common.default").toUpperCase()\<close> and
  \<^verbatim>\<open>i18next.t("commands.shareViewFiles.multiple.other")\<close>.
\<close>

definition titleOn :: "modules \<Rightarrow> string \<Rightarrow> string \<Rightarrow> string" where
  "titleOn m key doc =
     i18n_t m ''commands.shareViewFiles.multiple.on'' [(''smartKey'', key), (''doc'', doc)]"

definition defaultKey :: "modules \<Rightarrow> string" where
  "defaultKey m = toUpperCase m (i18n_t m ''common.default'' [])"

definition titleOther :: "modules \<Rightarrow> string" where
  "titleOther m = i18n_t m ''commands.shareViewFiles.multiple.other'' []"

text \<open>\<^verbatim>\<open>getFileCache(file)?.frontmatter\<close>, lines 131 and 171.\<close>

definition cachedFrontmatter :: "GithubPublisher \<Rightarrow> TAbstractFile \<Rightarrow> FrontMatterCache option" where
  "cachedFrontmatter plugin file =
     (case getFileCache plugin file of None \<Rightarrow> None | Some cm \<Rightarrow> cm_frontmatter cm)"

subsection \<open>The functions of \<^verbatim>\<open>file_menu.ts\<close>\<close>

text \<open>
  \<^verbatim>\<open>shareFolderRepo\<close>, lines 18-33. The object \<^verbatim>\<open>monoProperties\<close> is built, with its
  call of \<^verbatim>\<open>getRepoFrontmatter\<close>, before the arguments of \<^verbatim>\<open>shareAllMarkedNotes\<close>
  are evaluated. An \<^verbatim>\<open>async\<close> function that throws rejects its promise: the error is
  the result here.
\<close>

definition shareFolderRepo ::
  "modules \<Rightarrow> GithubPublisher \<Rightarrow> TFolder \<Rightarrow> string \<Rightarrow> Repository option \<Rightarrow> unit action" where
  "shareFolderRepo m plugin folder branchName repo =
     andThen (collab ReloadOctokit (reloadOctokit plugin)) (\<lambda>publisher.
     andThen (collab AddStatusBarItem (addStatusBarItem plugin)) (\<lambda>statusBarItems.
     andThen (collab GetRepoFrontmatter (getRepoFrontmatter m (settings plugin) repo None)) (\<lambda>rf.
     let monoProperties = \<lparr>mono_frontmatter = rf, mono_repo = repo\<rparr> in
     andThen (collab GetSharedFileOfFolder (getSharedFileOfFolder m publisher folder repo)) (\<lambda>files.
     collab (ShareAllMarkedNotes publisher statusBarItems branchName monoProperties files True)
       (shareAllMarkedNotes m publisher statusBarItems branchName monoProperties files True)))))"

text \<open>\<^verbatim>\<open>addSubMenuCommandsFolder\<close>, lines 45-88.\<close>

definition addSubMenuCommandsFolder ::
  "modules \<Rightarrow> GithubPublisher \<Rightarrow> nat \<Rightarrow> TFolder \<Rightarrow> string \<Rightarrow> nat \<Rightarrow> nat action" where
  "addSubMenuCommandsFolder m plugin item folder branchName originalMenu =
     andThen (if isDesktop m then setSubmenu item else succeed originalMenu) (\<lambda>subMenu.
     seq (addItem subMenu (\<lambda>subItem.
            seq (setTitle subItem (titleOn m (defaultKey m) (name folder)))
           (seq (setIcon subItem ''folder-up'')
                (setOnClick subItem (ShareFolderDefault folder branchName)))))
    (let activatedRepoCommands = filter createShortcuts (github_otherRepo (settings plugin)) in
     seq (if length activatedRepoCommands > 0 then
            forEach activatedRepoCommands (\<lambda>otherRepo.
              addItem subMenu (\<lambda>item'.
                seq (setTitle item' (titleOn m (toUpperCase m (smartKey otherRepo)) (name folder)))
               (seq (setIcon item' ''folder-up'')
                    (setOnClick item' (ShareFolderOther folder branchName otherRepo)))))
          else succeed ())
    (seq (addItem subMenu (\<lambda>subItem.
            seq (setTitle subItem (titleOther m))
           (seq (setIcon subItem ''folder-symlink'')
                (setOnClick subItem (ChooseFolder folder branchName)))))
         (succeed subMenu))))"

text \<open>
  \<^verbatim>\<open>subMenuCommandsFile\<close>, lines 170-264. \<^verbatim>\<open>repo?.shareKey === s\<close> is false
  for a \<^verbatim>\<open>null\<close> repository.
\<close>

definition subMenuCommandsFile ::
  "modules \<Rightarrow> GithubPublisher \<Rightarrow> nat \<Rightarrow> TAbstractFile \<Rightarrow> string \<Rightarrow> Repository option \<Rightarrow> nat
    \<Rightarrow> nat action" where
  "subMenuCommandsFile m plugin item file branchName repo originalMenu =
    (let fm = cachedFrontmatter plugin file in
     andThen (collab GetTitleFieldForCommand (getTitleFieldForCommand plugin file fm)) (\<lambda>t.
     let fileName = replaceFirst ''.md'' [] t in
     andThen (if isDesktop m then setSubmenu item else succeed originalMenu) (\<lambda>subMenu.
     andThen (collab GetRepoFrontmatter (getRepoFrontmatter m (settings plugin) repo fm)) (\<lambda>rf.
     let repoFrontmatter = (case rf of Many rs \<Rightarrow> rs | One r \<Rightarrow> [r]) in
     seq (if ((case repo of None \<Rightarrow> False | Some r \<Rightarrow> shareKey r = plugin_shareKey (settings plugin))
               \<or> truthy (getProp fm (plugin_shareKey (settings plugin))))
             \<and> (\<not> truthy (getProp fm ''repo'') \<or> \<not> truthy (getProp fm ''multipleRepo''))
          then
            addItem subMenu (\<lambda>subItem.
              seq (setTitle subItem (titleOn m (defaultKey m) fileName))
             (seq (setIcon subItem ''file-up'')
                  (setOnClick subItem (ShareFileDefault branchName file fileName))))
          else succeed ())
    (let activatedRepoCommands = filter createShortcuts (github_otherRepo (settings plugin)) in
     seq (if length activatedRepoCommands > 0 then
            forEach activatedRepoCommands (\<lambda>otherRepo.
              if map_option shareKey repo = Some (shareKey otherRepo)
                 \<or> truthy (getProp fm (shareKey otherRepo))
              then
                addItem subMenu (\<lambda>item'.
                  seq (setTitle item' (titleOn m (toUpperCase m (smartKey otherRepo)) fileName))
                 (seq (setIcon item' ''file-up'')
                      (setOnClick item' (ShareFile branchName file (Some otherRepo) fileName))))
              else succeed ())
          else succeed ())
    (seq (if length repoFrontmatter > 1 then
            forEach repoFrontmatter (\<lambda>repoFront.
              addItem subMenu (\<lambda>item'.
                seq (setTitle item' (titleOn m (toUpperCase m (rf_repo repoFront)) fileName))
               (seq (setIcon item' ''file-up'')
                    (setOnClick item' (ShareFile branchName file repo fileName)))))
          else succeed ())
    (seq (addItem subMenu (\<lambda>subItem.
            seq (setTitle subItem (titleOther m))
           (seq (setIcon subItem ''file-input'')
                (setOnClick subItem (ChooseFile repo branchName file fileName)))))
         (succeed subMenu))))))))"

text \<open>
  The callback that \<^verbatim>\<open>addMenuFile\<close> gives to \<^verbatim>\<open>menu.addItem\<close>, lines 106-155, with
  the variables of \<^verbatim>\<open>addMenuFile\<close> it reads. Its \<^verbatim>\<open>onClick\<close> closure reads the variable
  \<^verbatim>\<open>getSharedKey\<close> when clicked; nothing assigns to it after line 138.
\<close>

definition addMenuFile_item ::
  "modules \<Rightarrow> GithubPublisher \<Rightarrow> TAbstractFile \<Rightarrow> string \<Rightarrow> nat \<Rightarrow> FrontMatterCache option
    \<Rightarrow> Repository option \<Rightarrow> string list \<Rightarrow> RepoFrontmatters \<Rightarrow> nat \<Rightarrow> unit action" where
  "addMenuFile_item m plugin file branchName menu fm getSharedKey allKeysFromFile repoFrontmatter item =
    (if length allKeysFromFile > 1
        \<or> (case repoFrontmatter of Many rs \<Rightarrow> length rs > 1 | One r \<Rightarrow> False)
     then
       seq (if isDesktop m then seq (setTitle item ''Github Publisher'') (setIcon item ''upload-cloud'')
            else seq (addSeparator menu) (setIsLabel item True))
           (andThen (subMenuCommandsFile m plugin item file branchName getSharedKey menu)
              (\<lambda>_. succeed ()))
     else
       andThen (collab GetTitleFieldForCommand
                  (getTitleFieldForCommand plugin file (cachedFrontmatter plugin file)))
         (\<lambda>t.
       let fileName = replaceFirst ''.md'' [] t in
       andThen
         (if fm = None \<or> \<not> truthy (getProp fm (plugin_shareKey (settings plugin))) then
            (case find (\<lambda>repo. shareAllEnabled (shareAll repo)) (github_otherRepo (settings plugin)) of
               Some otherRepo \<Rightarrow> succeed (Some otherRepo)
             | None \<Rightarrow>
                 if shareAllEnabled (plugin_shareAll (settings plugin))
                 then andThen (collab DefaultRepo (defaultRepo m (settings plugin)))
                        (\<lambda>d. succeed (Some d))
                 else succeed getSharedKey)
          else if truthy (getProp fm (plugin_shareKey (settings plugin))) then
            andThen (collab DefaultRepo (defaultRepo m (settings plugin))) (\<lambda>d. succeed (Some d))
          else succeed getSharedKey)
         (\<lambda>getSharedKey'.
       seq (setTitle item (titleOn m
              (case getSharedKey' of
                 None \<Rightarrow> defaultKey m
               | Some r \<Rightarrow>
                   if toUpperCase m (smartKey r) = [] then defaultKey m
                   else toUpperCase m (smartKey r))
              fileName))
      (seq (setIcon item ''file-up'')
           (setOnClick item (ShareFile branchName file getSharedKey' fileName))))))"

text \<open>
  \<^verbatim>\<open>addMenuFile\<close>, lines 97-157. Line 98 reads \<^verbatim>\<open>.frontmatter\<close> of what
  \<^verbatim>\<open>getFileCache\<close> returned, asserted non-null: on \<^verbatim>\<open>null\<close> that is a TypeError.
\<close>

definition nullFrontmatter :: error where
  "nullFrontmatter = TypeError ''Cannot read properties of null (reading frontmatter)''"

definition addMenuFile ::
  "modules \<Rightarrow> GithubPublisher \<Rightarrow> TAbstractFile \<Rightarrow> string \<Rightarrow> nat \<Rightarrow> unit action" where
  "addMenuFile m plugin file branchName menu =
     andThen (case file of
                File f \<Rightarrow>
                  (case getFileCache plugin file of
                     None \<Rightarrow> throw nullFrontmatter
                   | Some cm \<Rightarrow> succeed (cm_frontmatter cm))
              | Folder d \<Rightarrow> succeed None) (\<lambda>fm.
     andThen (collab GetRepoSharedKey (getRepoSharedKey m (settings plugin) fm)) (\<lambda>getSharedKey.
     andThen (collab MultipleSharedKey (multipleSharedKey m fm (settings plugin))) (\<lambda>allKeysFromFile.
     andThen (collab IsShared (isShared m fm (settings plugin) file getSharedKey)) (\<lambda>shared.
     if shared \<and> plugin_fileMenu (settings plugin) then
       andThen (collab GetRepoFrontmatter (getRepoFrontmatter m (settings plugin) getSharedKey fm))
         (\<lambda>repoFrontmatter.
       addItem menu
         (addMenuFile_item m plugin file branchName menu fm getSharedKey allKeysFromFile
            repoFrontmatter))
     else succeed ()))))"

text \<open>\<^verbatim>\<open>addMenuFolder\<close>, lines 273-309.\<close>

definition addMenuFolder ::
  "modules \<Rightarrow> nat \<Rightarrow> TFolder \<Rightarrow> string \<Rightarrow> GithubPublisher \<Rightarrow> unit action" where
  "addMenuFolder m menu folder branchName plugin =
     addItem menu (\<lambda>item.
       let areTheyMultipleRepo = length (github_otherRepo (settings plugin)) > 0 in
       if areTheyMultipleRepo then
         seq (if isDesktop m then seq (setTitle item ''Github Publisher'') (setIcon item ''upload-cloud'')
              else seq (addSeparator menu) (setIsLabel item True))
             (andThen (addSubMenuCommandsFolder m plugin item folder branchName menu)
                (\<lambda>_. succeed ()))
       else
         seq (setSection item ''action'')
        (seq (setTitle item (titleOn m (defaultKey m) (name folder)))
        (seq (setIcon item ''folder-up'')
             (setOnClick item (ShareFolderDefault folder branchName)))))"

text \<open>
  What a click on an item runs: the body of the closure. The two choosers open the modal;
  when the user picks a repository there, the modal runs the callback it was given,
  which is \<open>onChosen\<close>.
\<close>

fun click :: "modules \<Rightarrow> GithubPublisher \<Rightarrow> handler \<Rightarrow> unit action" where
  "click m plugin (ShareFolderDefault folder branchName) =
     andThen (collab GetRepoSharedKey (getRepoSharedKey m (settings plugin) None)) (\<lambda>repo.
     shareFolderRepo m plugin folder branchName repo)"
| "click m plugin (ShareFolderOther folder branchName otherRepo) =
     shareFolderRepo m plugin folder branchName (Some otherRepo)"
| "click m plugin (ChooseFolder folder branchName) =
     collab (ChooseRepoToRun None branchName ''folder'' None)
       (openChooseRepoToRun m None branchName ''folder'' None)"
| "click m plugin (ShareFile branchName file repo fileName) =
     andThen (collab ReloadOctokit (reloadOctokit plugin)) (\<lambda>publisher.
     collab (ShareOneNote branchName publisher file repo fileName)
       (shareOneNote m branchName publisher file repo fileName))"
| "click m plugin (ShareFileDefault branchName file fileName) =
     andThen (collab ReloadOctokit (reloadOctokit plugin)) (\<lambda>publisher.
     andThen (collab DefaultRepo (defaultRepo m (settings plugin))) (\<lambda>d.
     collab (ShareOneNote branchName publisher file (Some d) fileName)
       (shareOneNote m branchName publisher file (Some d) fileName)))"
| "click m plugin (ChooseFile repo branchName file fileName) =
     collab (ChooseRepoToRun (map_option shareKey repo) branchName ''file'' (basenameOf file))
       (openChooseRepoToRun m (map_option shareKey repo) branchName ''file'' (basenameOf file))"


section \<open>Notions used to state the properties\<close>

subsection \<open>What a menu shows\<close>

text \<open>
  An item as the chained calls \<^verbatim>\<open>setTitle(t).setIcon(ic).onClick(f)\<close> leave a new item,
  the parent item of a submenu, and the label that stands for it where there is none.
\<close>

definition actionItem :: "string \<Rightarrow> string \<Rightarrow> handler \<Rightarrow> MenuItem" where
  "actionItem t ic f = \<lparr>title = Some t, icon = Some ic, sectionName = None, isLabel = False,
     onClick = Some f, submenu = None\<rparr>"

definition parentItem :: "nat \<Rightarrow> MenuItem" where
  "parentItem sub = \<lparr>title = Some ''Github Publisher'', icon = Some ''upload-cloud'',
     sectionName = None, isLabel = False, onClick = None, submenu = Some sub\<rparr>"

definition labelItem :: MenuItem where
  "labelItem = \<lparr>title = None, icon = None, sectionName = None, isLabel = True,
     onClick = None, submenu = None\<rparr>"

text \<open>The entries of a menu read out: its items as they are in the store, \<open>None\<close> for a separator.\<close>

definition shown :: "host \<Rightarrow> entry list \<Rightarrow> MenuItem option list" where
  "shown h es = map (\<lambda>e. case e of ItemEntry i \<Rightarrow> Some (items h i) | Separator \<Rightarrow> None) es"

text \<open>
  The items that \<^verbatim>\<open>addSubMenuCommandsFolder\<close> (lines 48-86) and \<^verbatim>\<open>subMenuCommandsFile\<close>
  (lines 180-262) add, in order, written as lists; \<open>addSubMenuCommandsFolder_run\<close> and
  \<open>subMenuCommandsFile_run\<close> below prove that the loops of the two functions add them.
\<close>

definition folderChoices :: "modules \<Rightarrow> GithubPublisher \<Rightarrow> TFolder \<Rightarrow> string \<Rightarrow> MenuItem list" where
  "folderChoices m plugin folder branchName =
     actionItem (titleOn m (defaultKey m) (name folder)) ''folder-up''
       (ShareFolderDefault folder branchName)
     # map (\<lambda>otherRepo.
              actionItem (titleOn m (toUpperCase m (smartKey otherRepo)) (name folder)) ''folder-up''
                (ShareFolderOther folder branchName otherRepo))
         (filter createShortcuts (github_otherRepo (settings plugin)))
     @ [actionItem (titleOther m) ''folder-symlink'' (ChooseFolder folder branchName)]"

definition fileChoices ::
  "modules \<Rightarrow> GithubPublisher \<Rightarrow> TAbstractFile \<Rightarrow> string \<Rightarrow> Repository option \<Rightarrow> string
    \<Rightarrow> RepoFrontmatters \<Rightarrow> MenuItem list" where
  "fileChoices m plugin file branchName repo fileName rf =
    (let fm = cachedFrontmatter plugin file;
         repoFrontmatter = (case rf of Many rs \<Rightarrow> rs | One r \<Rightarrow> [r])
     in (if ((case repo of None \<Rightarrow> False | Some r \<Rightarrow> shareKey r = plugin_shareKey (settings plugin))
               \<or> truthy (getProp fm (plugin_shareKey (settings plugin))))
             \<and> (\<not> truthy (getProp fm ''repo'') \<or> \<not> truthy (getProp fm ''multipleRepo''))
         then [actionItem (titleOn m (defaultKey m) fileName) ''file-up''
                 (ShareFileDefault branchName file fileName)]
         else [])
      @ map (\<lambda>otherRepo.
               actionItem (titleOn m (toUpperCase m (smartKey otherRepo)) fileName) ''file-up''
                 (ShareFile branchName file (Some otherRepo) fileName))
          (filter (\<lambda>otherRepo. map_option shareKey repo = Some (shareKey otherRepo)
                                \<or> truthy (getProp fm (shareKey otherRepo)))
             (filter createShortcuts (github_otherRepo (settings plugin))))
      @ (if length repoFrontmatter > 1
         then map (\<lambda>repoFront.
                     actionItem (titleOn m (toUpperCase m (rf_repo repoFront)) fileName) ''file-up''
                       (ShareFile branchName file repo fileName))
                repoFrontmatter
         else [])
      @ [actionItem (titleOther m) ''file-input'' (ChooseFile repo branchName file fileName)])"

text \<open>Store transformers: an item appended to a menu, a list of them, calls that succeeded.\<close>

definition pushItem :: "nat \<Rightarrow> MenuItem \<Rightarrow> host \<Rightarrow> host" where
  "pushItem menu it h = h\<lparr>items := (items h)(n_items h := it), n_items := Suc (n_items h),
     menus := (menus h)(menu := menus h menu @ [ItemEntry (n_items h)])\<rparr>"

definition pushItems :: "nat \<Rightarrow> MenuItem list \<Rightarrow> host \<Rightarrow> host" where
  "pushItems menu its h = fold (pushItem menu) its h"

definition logged :: "call list \<Rightarrow> host \<Rightarrow> host" where
  "logged cs h = h\<lparr>calls := calls h @ map (\<lambda>c. (c, None)) cs\<rparr>"

subsection \<open>What the log of calls says\<close>

text \<open>The calls that dispatch a share, and those of them in the log of a store.\<close>

fun isShare :: "call \<Rightarrow> bool" where
  "isShare (ShareOneNote b p f r n) = True"
| "isShare (ShareAllMarkedNotes p s b mp fs x) = True"
| "isShare c = False"

definition shares :: "host \<Rightarrow> call list" where
  "shares h = filter isShare (map fst (calls h))"






text \<open>
  A computation is faithful to the errors of the functions it calls when, from any store:
  the menus that exist keep the entries they have and nothing is deallocated; the log only
  grows; when it returns, every call it made succeeded; when it throws \<open>e\<close>, either the
  last call it made threw \<open>e\<close> and every call before succeeded, or every call succeeded
  and \<open>e\<close> is the module's own TypeError of line 98.
\<close>

definition clean :: "(call \<times> error option) list \<Rightarrow> bool" where
  "clean cs = list_all (\<lambda>c. snd c = None) cs"

definition kept :: "host \<Rightarrow> host \<Rightarrow> bool" where
  "kept h h' = (n_menus h \<le> n_menus h' \<and> n_items h \<le> n_items h' \<and>
     (\<forall>menu < n_menus h. take (length (menus h menu)) (menus h' menu) = menus h menu))"

definition faithful :: "'a action \<Rightarrow> bool" where
  "faithful a = (\<forall>h. case a h of (r, h') \<Rightarrow>
     kept h h' \<and>
     (\<exists>new. calls h' = calls h @ new \<and>
        (case r of
           Inr x \<Rightarrow> clean new
         | Inl e \<Rightarrow> (clean new \<and> e = nullFrontmatter)
                    \<or> (\<exists>old c. new = old @ [(c, Some e)] \<and> clean old))))"

subsection \<open>A small vault for the examples\<close>

text \<open>
  Stand-ins for the host and for the other modules of the plugin, on which the theorems
  below are run: \<open>upper\<close> for \<^verbatim>\<open>toUpperCase\<close> on ASCII letters, \<open>texts\<close> for
  \<^verbatim>\<open>i18next.t\<close> (the key, then the values), three repositories, a note and a folder,
  a plugin whose cache gives every file the frontmatter \<open>fm\<close> and whose settings list
  the repositories \<open>others\<close>, and imported functions that all succeed.
\<close>

definition upper :: "string \<Rightarrow> string" where
  "upper s = map (\<lambda>c. case map_of (zip ''abcdefghijklmnopqrstuvwxyz'' ''ABCDEFGHIJKLMNOPQRSTUVWXYZ'') c
                        of Some u \<Rightarrow> u | None \<Rightarrow> c) s"

definition texts :: "string \<Rightarrow> (string \<times> string) list \<Rightarrow> string" where
  "texts key values = key @ concat (map (\<lambda>kv. CHR '' '' # snd kv) values)"

definition repoA :: Repository where
  "repoA = \<lparr>smartKey = ''alpha'', shareKey = ''shareA'', createShortcuts = True, shareAll = None\<rparr>"

definition repoB :: Repository where
  "repoB = \<lparr>smartKey = ''beta'', shareKey = ''shareB'', createShortcuts = False,
     shareAll = Some \<lparr>enable = True\<rparr>\<rparr>"

definition repoD :: Repository where
  "repoD = \<lparr>smartKey = ''default'', shareKey = ''share'', createShortcuts = False, shareAll = None\<rparr>"

definition rfOne :: RepoFrontmatter where
  "rfOne = \<lparr>rf_owner = ''me'', rf_repo = ''one'', rf_branch = ''main''\<rparr>"

definition rfTwo :: RepoFrontmatter where
  "rfTwo = \<lparr>rf_owner = ''me'', rf_repo = ''two'', rf_branch = ''main''\<rparr>"

definition note1 :: TFile where
  "note1 = \<lparr>path = ''notes/n.md'', basename = ''n''\<rparr>"

definition dir1 :: TFolder where
  "dir1 = \<lparr>name = ''notes''\<rparr>"

definition vault :: "FrontMatterCache option \<Rightarrow> Repository list \<Rightarrow> GithubPublisher" where
  "vault fm others =
     \<lparr>settings = \<lparr>github_otherRepo = others, plugin_fileMenu = True, plugin_shareKey = ''share'',
                   plugin_shareAll = None\<rparr>,
      getFileCache = (\<lambda>f. Some \<lparr>cm_frontmatter = fm\<rparr>),
      getTitleFieldForCommand = (\<lambda>f fm'. Inr ''n.md''),
      reloadOctokit = Inr (GithubBranch 0),
      addStatusBarItem = Inr (HTMLElement 0)\<rparr>"

definition desktop :: modules where
  "desktop =
     \<lparr>isDesktop = True, i18n_t = texts, toUpperCase = upper,
      getRepoFrontmatter = (\<lambda>s r fm. Inr (One rfOne)),
      getRepoSharedKey = (\<lambda>s fm. Inr (Some repoD)),
      multipleSharedKey = (\<lambda>fm s. Inr [''share'']),
      isShared = (\<lambda>fm s f r. Inr True),
      defaultRepo = (\<lambda>s. Inr repoD),
      getSharedFileOfFolder = (\<lambda>p d r. Inr [note1]),
      shareOneNote = (\<lambda>b p f r n. Inr ()),
      shareAllMarkedNotes = (\<lambda>p sb b mp fs x. Inr ()),
      openChooseRepoToRun = (\<lambda>k b ty n. Inr ())\<rparr>"

definition mobile :: modules where
  "mobile = desktop\<lparr>isDesktop := False\<rparr>"

text \<open>
  The store when the host opens a menu: menu 0 exists and is empty; and the same with one
  item of the host's own already in it.
\<close>

definition emptyMenu :: host where
  "emptyMenu = \<lparr>menus = (\<lambda>_. []), n_menus = 1, items = (\<lambda>_. newItem), n_items = 0, calls = []\<rparr>"

definition renameItem :: MenuItem where
  "renameItem = newItem\<lparr>title := Some ''Rename''\<rparr>"

definition hostMenu :: host where
  "hostMenu = \<lparr>menus = (\<lambda>_. [])(0 := [ItemEntry 0]), n_menus = 1,
     items = (\<lambda>_. newItem)(0 := renameItem), n_items = 1, calls = []\<rparr>"

text \<open>
  The store in which \<^verbatim>\<open>addMenuFolder\<close> and \<^verbatim>\<open>addMenuFile\<close> call the function that
  fills the submenu when the platform is not the desktop: after the host's item come the
  label (item 1) and the separator.
\<close>

definition labelledMenu :: host where
  "labelledMenu = \<lparr>menus = (\<lambda>_. [])(0 := [ItemEntry 0, ItemEntry 1, Separator]), n_menus = 1,
     items = (\<lambda>_. newItem)(0 := renameItem, 1 := labelItem), n_items = 2, calls = []\<rparr>"

section \<open>Running the functions\<close>

lemma succeed_run: "succeed x h = (Inr x, h)"
  by (simp add: succeed_def)

lemma throw_run: "throw e h = (Inl e, h)"
  by (simp add: throw_def)

lemma andThen_run:
  "andThen a f h = (case a h of (Inl e, h') \<Rightarrow> (Inl e, h') | (Inr x, h') \<Rightarrow> f x h')"
  by (simp add: andThen_def)

lemma seq_run: "seq a b h = (case a h of (Inl e, h') \<Rightarrow> (Inl e, h') | (Inr x, h') \<Rightarrow> b h')"
  by (simp add: seq_def andThen_def)

lemma collab_run: "collab c r h = (r, h\<lparr>calls := calls h @ [(c, outcome r)]\<rparr>)"
  by (simp add: collab_def)

lemmas run = succeed_run throw_run andThen_run seq_run collab_run

lemmas setters = setTitle_def setIcon_def setSection_def setIsLabel_def setOnClick_def
  setSubmenu_def addSeparator_def

lemma addItem_action:
  "addItem menu (\<lambda>i. seq (setTitle i t) (seq (setIcon i ic) (setOnClick i f))) h
     = (Inr (), pushItem menu (actionItem t ic f) h)"
  by (simp add: addItem_def seq_run setters pushItem_def actionItem_def newItem_def Let_def)

lemma forEach_filter:
  "forEach xs (\<lambda>x. if P x then f x else succeed ()) h = forEach (filter P xs) f h"
  by (induction xs arbitrary: h) (auto simp: seq_run succeed_run split: prod.splits sum.splits)

lemma forEach_guard:
  "(if xs \<noteq> [] then forEach xs f else succeed ()) = forEach xs f"
  "(if 0 < length xs then forEach xs f else succeed ()) = forEach xs f"
  "(if xs = [] then succeed () else forEach xs f) = forEach xs f"
  by (cases xs; simp)+

lemma forEach_push:
  assumes "\<And>x h. f x h = (Inr (), pushItem menu (g x) h)"
  shows "forEach xs f h = (Inr (), pushItems menu (map g xs) h)"
  using assms by (induction xs arbitrary: h) (simp_all add: succeed_run seq_run pushItems_def)

lemma pushItems_Nil: "pushItems menu [] h = h"
  by (simp add: pushItems_def)

lemma pushItems_Cons: "pushItems menu (x # xs) h = pushItems menu xs (pushItem menu x h)"
  by (simp add: pushItems_def)

lemma n_items_pushItems: "n_items (pushItems menu its h) = n_items h + length its"
  by (induction its arbitrary: h) (simp_all add: pushItems_Nil pushItems_Cons pushItem_def)

lemma n_menus_pushItems: "n_menus (pushItems menu its h) = n_menus h"
  by (induction its arbitrary: h) (simp_all add: pushItems_Nil pushItems_Cons pushItem_def)

lemma calls_pushItems: "calls (pushItems menu its h) = calls h"
  by (induction its arbitrary: h) (simp_all add: pushItems_Nil pushItems_Cons pushItem_def)

lemma menus_pushItems:
  "menus (pushItems menu its h) =
     (menus h)(menu := menus h menu @ map ItemEntry [n_items h ..< n_items h + length its])"
proof (induction its arbitrary: h)
  case Nil
  then show ?case by (simp add: pushItems_Nil)
next
  case (Cons a its)
  have "[n_items h ..< n_items h + length (a # its)]
          = n_items h # [Suc (n_items h) ..< Suc (n_items h) + length its]"
    by (subst upt_rec) simp
  then show ?case
    by (auto simp add: pushItems_Cons Cons pushItem_def fun_eq_iff simp del: upt_Suc)
qed

lemma items_pushItems:
  "items (pushItems menu its h) j =
     (if n_items h \<le> j \<and> j < n_items h + length its then its ! (j - n_items h) else items h j)"
proof (induction its arbitrary: h)
  case Nil
  then show ?case by (auto simp: pushItems_Nil)
next
  case (Cons a its)
  then show ?case by (auto simp: pushItems_Cons pushItem_def nth_Cons' Suc_diff_le)
qed

lemma shown_new:
  "shown (pushItems menu its h) (map ItemEntry [n_items h ..< n_items h + length its]) = map Some its"
proof -
  have "map (\<lambda>j. Some (items (pushItems menu its h) j)) [n_items h ..< n_items h + length its]
          = map Some its"
    by (rule nth_equalityI) (simp_all add: items_pushItems)
  then show ?thesis by (simp add: shown_def comp_def)
qed

lemma shown_new':
  "n = n_items h \<Longrightarrow> k = n + length its
    \<Longrightarrow> shown (pushItems menu its h) (map ItemEntry [n ..< k]) = map Some its"
  using shown_new[of menu its h] by simp

text \<open>The two functions that fill a submenu add the items listed above.\<close>

lemma addSubMenuCommandsFolder_run:
  "addSubMenuCommandsFolder m plugin item folder branchName originalMenu h =
    (if isDesktop m then
       (Inr (n_menus h),
        pushItems (n_menus h) (folderChoices m plugin folder branchName) (snd (setSubmenu item h)))
     else (Inr originalMenu, pushItems originalMenu (folderChoices m plugin folder branchName) h))"
  by (simp add: addSubMenuCommandsFolder_def folderChoices_def Let_def run addItem_action
        setSubmenu_def forEach_guard pushItems_def
        forEach_push[where g="\<lambda>otherRepo. actionItem
            (titleOn m (toUpperCase m (smartKey otherRepo)) (name folder)) ''folder-up''
            (ShareFolderOther folder branchName otherRepo)", OF addItem_action])

lemma subMenuCommandsFile_run:
  assumes "getTitleFieldForCommand plugin file (cachedFrontmatter plugin file) = Inr t"
    and "getRepoFrontmatter m (settings plugin) repo (cachedFrontmatter plugin file) = Inr rf"
  shows "subMenuCommandsFile m plugin item file branchName repo originalMenu h =
    (if isDesktop m then
       (Inr (n_menus h),
        pushItems (n_menus h)
          (fileChoices m plugin file branchName repo (replaceFirst ''.md'' [] t) rf)
          (logged [GetRepoFrontmatter] (snd (setSubmenu item (logged [GetTitleFieldForCommand] h)))))
     else
       (Inr originalMenu,
        pushItems originalMenu
          (fileChoices m plugin file branchName repo (replaceFirst ''.md'' [] t) rf)
          (logged [GetTitleFieldForCommand, GetRepoFrontmatter] h)))"
  using assms
  by (simp add: subMenuCommandsFile_def fileChoices_def Let_def run addItem_action setSubmenu_def
        logged_def outcome_def forEach_filter forEach_guard pushItems_def
        forEach_push[where g="\<lambda>otherRepo. actionItem
            (titleOn m (toUpperCase m (smartKey otherRepo)) (replaceFirst ''.md'' [] t)) ''file-up''
            (ShareFile branchName file (Some otherRepo) (replaceFirst ''.md'' [] t))",
          OF addItem_action]
        forEach_push[where g="\<lambda>repoFront. actionItem
            (titleOn m (toUpperCase m (rf_repo repoFront)) (replaceFirst ''.md'' [] t)) ''file-up''
            (ShareFile branchName file repo (replaceFirst ''.md'' [] t))",
          OF addItem_action])

lemma cachedFrontmatter_Some:
  "getFileCache plugin fl = Some cm \<Longrightarrow> cachedFrontmatter plugin fl = cm_frontmatter cm"
  by (simp add: cachedFrontmatter_def)

lemma shown_append: "shown h (xs @ ys) = shown h xs @ shown h ys"
  by (simp add: shown_def)

lemma last_shown_pushItems:
  assumes "its \<noteq> []"
  shows "menus (pushItems sub its h) sub \<noteq> []"
    and "last (shown (pushItems sub its h) (menus (pushItems sub its h) sub)) = Some (last its)"
proof -
  let ?new = "map ItemEntry [n_items h ..< n_items h + length its]"
  have m: "menus (pushItems sub its h) sub = menus h sub @ ?new"
    by (simp add: menus_pushItems)
  have n: "shown (pushItems sub its h) ?new = map Some its"
    by (rule shown_new)
  from assms m show "menus (pushItems sub its h) sub \<noteq> []"
    by simp
  from assms have "map Some its \<noteq> []"
    by simp
  with m n show "last (shown (pushItems sub its h) (menus (pushItems sub its h) sub)) = Some (last its)"
    by (simp add: shown_append last_map del: upt_Suc)
qed

lemma subMenuCommandsFile_returns:
  assumes "subMenuCommandsFile m plugin item fl branchName repo originalMenu h = (Inr sub, h')"
  obtains t rf where "getTitleFieldForCommand plugin fl (cachedFrontmatter plugin fl) = Inr t"
    and "getRepoFrontmatter m (settings plugin) repo (cachedFrontmatter plugin fl) = Inr rf"
proof (cases "getTitleFieldForCommand plugin fl (cachedFrontmatter plugin fl)")
  case (Inl e)
  with assms show ?thesis
    by (simp add: subMenuCommandsFile_def Let_def run)
next
  case t: (Inr t)
  show ?thesis
  proof (cases "getRepoFrontmatter m (settings plugin) repo (cachedFrontmatter plugin fl)")
    case (Inl e)
    with assms t show ?thesis
      by (simp add: subMenuCommandsFile_def Let_def andThen_run collab_run succeed_run
          setSubmenu_def split: if_splits)
  next
    case (Inr rf)
    with t that show ?thesis by blast
  qed
qed

section \<open>Properties that compose\<close>

subsection \<open>No share is dispatched\<close>


















subsection \<open>Errors pass through, and what was built stays\<close>

lemma kept_refl: "kept h h"
  by (simp add: kept_def)

lemma kept_trans: "kept h h1 \<Longrightarrow> kept h1 h2 \<Longrightarrow> kept h h2"
proof -
  assume a: "kept h h1" and b: "kept h1 h2"
  have "take (length (menus h menu)) (menus h2 menu) = menus h menu" if "menu < n_menus h" for menu
  proof -
    from a that have 1: "take (length (menus h menu)) (menus h1 menu) = menus h menu"
      by (simp add: kept_def)
    from a b that have 2: "take (length (menus h1 menu)) (menus h2 menu) = menus h1 menu"
      by (simp add: kept_def)
    from arg_cong[OF 1, of length] have "length (menus h menu) \<le> length (menus h1 menu)"
      by (simp add: min_def split: if_splits)
    then have "take (length (menus h menu)) (menus h2 menu)
        = take (length (menus h menu)) (take (length (menus h1 menu)) (menus h2 menu))"
      by (simp add: min_def)
    with 1 2 show ?thesis by simp
  qed
  with a b show ?thesis by (simp add: kept_def)
qed

lemma clean_append: "clean (xs @ ys) = (clean xs \<and> clean ys)"
  by (simp add: clean_def)

lemma clean_Nil: "clean []"
  by (simp add: clean_def)

lemma faithful_succeed: "faithful (succeed x)"
  by (simp add: faithful_def succeed_run kept_refl clean_Nil)

lemma faithful_throw: "faithful (throw nullFrontmatter)"
  by (simp add: faithful_def throw_run kept_refl clean_Nil)

lemma faithful_collab: "faithful (collab c r)"
  by (cases r) (simp_all add: faithful_def collab_run kept_def outcome_def clean_def)

lemma faithful_andThen:
  assumes a: "faithful a" and f: "\<And>x. faithful (f x)"
  shows "faithful (andThen a f)"
  unfolding faithful_def
proof (intro allI)
  fix h
  obtain r1 h1 where a1: "a h = (r1, h1)" by (cases "a h")
  from a a1 obtain new1 where k1: "kept h h1" and c1: "calls h1 = calls h @ new1"
    and o1: "case r1 of Inr x \<Rightarrow> clean new1
             | Inl e \<Rightarrow> (clean new1 \<and> e = nullFrontmatter)
                    \<or> (\<exists>old c. new1 = old @ [(c, Some e)] \<and> clean old)"
    unfolding faithful_def by (fastforce split: prod.splits)
  show "case andThen a f h of (r, h') \<Rightarrow>
     kept h h' \<and>
     (\<exists>new. calls h' = calls h @ new \<and>
        (case r of
           Inr x \<Rightarrow> clean new
         | Inl e \<Rightarrow> (clean new \<and> e = nullFrontmatter)
                    \<or> (\<exists>old c. new = old @ [(c, Some e)] \<and> clean old)))"
  proof (cases r1)
    case (Inl e)
    with a1 k1 c1 o1 show ?thesis by (simp add: andThen_run)
  next
    case (Inr x)
    obtain r2 h2 where f2: "f x h1 = (r2, h2)" by (cases "f x h1")
    from f[of x] f2 obtain new2 where k2: "kept h1 h2" and c2: "calls h2 = calls h1 @ new2"
      and o2: "case r2 of Inr y \<Rightarrow> clean new2
               | Inl e \<Rightarrow> (clean new2 \<and> e = nullFrontmatter)
                      \<or> (\<exists>old c. new2 = old @ [(c, Some e)] \<and> clean old)"
      unfolding faithful_def by (fastforce split: prod.splits)
    from Inr o1 have cl1: "clean new1" by simp
    have "case r2 of Inr y \<Rightarrow> clean (new1 @ new2)
               | Inl e \<Rightarrow> (clean (new1 @ new2) \<and> e = nullFrontmatter)
                      \<or> (\<exists>old c. new1 @ new2 = old @ [(c, Some e)] \<and> clean old)"
    proof (cases r2)
      case (Inl e)
      with o2 consider "clean new2" "e = nullFrontmatter"
        | old c where "new2 = old @ [(c, Some e)]" "clean old" by auto
      then show ?thesis
      proof cases
        case 1
        with Inl cl1 show ?thesis by (simp add: clean_append)
      next
        case 2
        then have "new1 @ new2 = (new1 @ old) @ [(c, Some e)]" "clean (new1 @ old)"
          using cl1 by (simp_all add: clean_append)
        with Inl show ?thesis by (simp del: append_assoc)
      qed
    next
      case (Inr y)
      with o2 cl1 show ?thesis by (simp add: clean_append)
    qed
    moreover have "kept h h2" using k1 k2 by (rule kept_trans)
    moreover have "calls h2 = calls h @ (new1 @ new2)" using c1 c2 by simp
    ultimately show ?thesis using a1 Inr f2 by (auto simp add: andThen_run)
  qed
qed

lemma faithful_seq: "faithful a \<Longrightarrow> faithful b \<Longrightarrow> faithful (seq a b)"
  unfolding seq_def by (rule faithful_andThen)

lemma faithful_forEach: "(\<And>x. faithful (f x)) \<Longrightarrow> faithful (forEach xs f)"
  by (induction xs) (simp_all add: faithful_succeed faithful_seq)

lemma faithful_if: "faithful a \<Longrightarrow> faithful b \<Longrightarrow> faithful (if c then a else b)"
  by simp

lemma faithful_option:
  "faithful a \<Longrightarrow> (\<And>x. faithful (f x)) \<Longrightarrow> faithful (case v of None \<Rightarrow> a | Some x \<Rightarrow> f x)"
  by (cases v) simp_all

lemma faithful_file:
  "(\<And>x. faithful (f x)) \<Longrightarrow> (\<And>x. faithful (g x))
    \<Longrightarrow> faithful (case v of File x \<Rightarrow> f x | Folder x \<Rightarrow> g x)"
  by (cases v) simp_all

lemma faithful_setters:
  "faithful (setTitle i s)" "faithful (setIcon i s)" "faithful (setSection i s)"
  "faithful (setIsLabel i b)" "faithful (setOnClick i f)" "faithful (addSeparator menu)"
  by (simp_all add: faithful_def kept_def clean_Nil setTitle_def setIcon_def setSection_def
      setIsLabel_def setOnClick_def addSeparator_def)

lemma faithful_setSubmenu: "faithful (setSubmenu i)"
  by (simp add: faithful_def kept_def clean_Nil setSubmenu_def Let_def)

lemma faithful_addItem:
  assumes "\<And>i. faithful (cb i)"
  shows "faithful (addItem menu cb)"
proof -
  let ?push = "\<lambda>h. (Inr () :: error + unit, h\<lparr>items := (items h)(n_items h := newItem),
          n_items := Suc (n_items h),
          menus := (menus h)(menu := menus h menu @ [ItemEntry (n_items h)])\<rparr>)"
  have "addItem menu cb = seq ?push (\<lambda>h. cb (n_items h - 1) h)"
    by (simp add: addItem_def seq_run fun_eq_iff Let_def)
  moreover have "faithful ?push"
    by (simp add: faithful_def kept_def clean_Nil)
  moreover have "faithful (\<lambda>h. cb (n_items h - 1) h)"
    unfolding faithful_def by (intro allI) (rule assms[unfolded faithful_def, rule_format])
  ultimately show ?thesis by (simp add: faithful_seq)
qed

lemmas faithful_intros = faithful_succeed faithful_throw faithful_collab faithful_andThen
  faithful_seq faithful_forEach faithful_if faithful_option faithful_file faithful_setters
  faithful_setSubmenu faithful_addItem

lemma faithful_shareFolderRepo: "faithful (shareFolderRepo m plugin folder b repo)"
  unfolding shareFolderRepo_def Let_def by (intro faithful_intros)

lemma faithful_addSubMenuCommandsFolder:
  "faithful (addSubMenuCommandsFolder m plugin item folder b orig)"
  unfolding addSubMenuCommandsFolder_def Let_def by (intro faithful_intros)

lemma faithful_subMenuCommandsFile: "faithful (subMenuCommandsFile m plugin item file b repo orig)"
  unfolding subMenuCommandsFile_def Let_def by (intro faithful_intros)

lemma faithful_addMenuFile_item:
  "faithful (addMenuFile_item m plugin file b menu fm key keys rfs item)"
  unfolding addMenuFile_item_def Let_def by (intro faithful_intros faithful_subMenuCommandsFile)

lemma faithful_addMenuFile: "faithful (addMenuFile m plugin file b menu)"
  unfolding addMenuFile_def Let_def by (intro faithful_intros faithful_addMenuFile_item)

lemma faithful_addMenuFolder: "faithful (addMenuFolder m menu folder b plugin)"
  unfolding addMenuFolder_def Let_def by (intro faithful_intros faithful_addSubMenuCommandsFolder)

lemma faithful_kept: "faithful a \<Longrightarrow> a h = (r, h') \<Longrightarrow> kept h h'"
  unfolding faithful_def by (auto split: prod.splits)

subsection \<open>What a click dispatches\<close>




section \<open>The properties\<close>

lemmas examples = upper_def texts_def repoA_def repoB_def repoD_def rfOne_def rfTwo_def note1_def
  dir1_def vault_def desktop_def mobile_def emptyMenu_def hostMenu_def labelledMenu_def
  renameItem_def labelItem_def parentItem_def actionItem_def newItem_def

lemmas model = addMenuFile_def addMenuFile_item_def subMenuCommandsFile_def addMenuFolder_def
  addSubMenuCommandsFolder_def shareFolderRepo_def cachedFrontmatter_def titleOn_def titleOther_def
  defaultKey_def getProp_def objectPrototype_def shareAllEnabled_def outcome_def addItem_def
  Let_def run setters

subsection \<open>The entries for the repositories of the frontmatter\<close>

text \<open>
  Claim C1 says that each entry that \<^verbatim>\<open>subMenuCommandsFile\<close> builds for a repository of a
  list of more than one, when clicked, calls \<^verbatim>\<open>shareOneNote\<close> with the repository its
  title names. The code does not: lines 226-243 give every such entry the title of its
  own repository and one and the same handler, which passes the parameter \<^verbatim>\<open>repo\<close> of
  \<^verbatim>\<open>subMenuCommandsFile\<close>, whereas the loop before it (lines 203-223) passes its loop
  variable. Here the frontmatter lists two repositories: the entries titled ONE and TWO
  (items 3 and 4) have the same handler, and a click dispatches the call with the
  repository that was passed in.
\<close>

theorem repoFrontmatter_entries_same_target:
  "getRepoFrontmatter (mobile\<lparr>getRepoFrontmatter := (\<lambda>s r fm. Inr (Many [rfOne, rfTwo]))\<rparr>)
      (settings (vault (Some [(''share'', JBool True),
                              (''multipleRepo'', JArr [JStr ''me/one'', JStr ''me/two''])]) []))
      (Some repoD)
      (Some [(''share'', JBool True), (''multipleRepo'', JArr [JStr ''me/one'', JStr ''me/two''])])
     = Inr (Many [rfOne, rfTwo])
   \<and> rf_repo rfOne \<noteq> rf_repo rfTwo
   \<and> (case subMenuCommandsFile (mobile\<lparr>getRepoFrontmatter := (\<lambda>s r fm. Inr (Many [rfOne, rfTwo]))\<rparr>)
            (vault (Some [(''share'', JBool True),
                          (''multipleRepo'', JArr [JStr ''me/one'', JStr ''me/two''])]) [])
            1 (File note1) ''main'' (Some repoD) 0 labelledMenu of
      (r, h') \<Rightarrow>
        r = Inr 0
        \<and> menus h' 0 = [ItemEntry 0, ItemEntry 1, Separator, ItemEntry 2, ItemEntry 3, ItemEntry 4,
                         ItemEntry 5]
        \<and> title (items h' 3) = Some ''commands.shareViewFiles.multiple.on ONE n''
        \<and> title (items h' 4) = Some ''commands.shareViewFiles.multiple.on TWO n''
        \<and> onClick (items h' 3) = Some (ShareFile ''main'' (File note1) (Some repoD) ''n'')
        \<and> onClick (items h' 4) = Some (ShareFile ''main'' (File note1) (Some repoD) ''n'')
        \<and> shares (snd (click (mobile\<lparr>getRepoFrontmatter := (\<lambda>s r fm. Inr (Many [rfOne, rfTwo]))\<rparr>)
                          (vault (Some [(''share'', JBool True),
                             (''multipleRepo'', JArr [JStr ''me/one'', JStr ''me/two''])]) [])
                          (ShareFile ''main'' (File note1) (Some repoD) ''n'') h'))
            = [ShareOneNote ''main'' (GithubBranch 0) (File note1) (Some repoD) ''n''])"
  by (simp add: examples model forEach_guard shares_def)

text \<open>So the handlers of the two entries are equal, though their titles differ.\<close>

theorem repoFrontmatter_entries_same_target_witness:
  "onClick (items (snd (subMenuCommandsFile
        (mobile\<lparr>getRepoFrontmatter := (\<lambda>s r fm. Inr (Many [rfOne, rfTwo]))\<rparr>)
        (vault (Some [(''share'', JBool True),
                      (''multipleRepo'', JArr [JStr ''me/one'', JStr ''me/two''])]) [])
        1 (File note1) ''main'' (Some repoD) 0 labelledMenu)) 3)
   = onClick (items (snd (subMenuCommandsFile
        (mobile\<lparr>getRepoFrontmatter := (\<lambda>s r fm. Inr (Many [rfOne, rfTwo]))\<rparr>)
        (vault (Some [(''share'', JBool True),
                      (''multipleRepo'', JArr [JStr ''me/one'', JStr ''me/two''])]) [])
        1 (File note1) ''main'' (Some repoD) 0 labelledMenu)) 4)
   \<and> title (items (snd (subMenuCommandsFile
        (mobile\<lparr>getRepoFrontmatter := (\<lambda>s r fm. Inr (Many [rfOne, rfTwo]))\<rparr>)
        (vault (Some [(''share'', JBool True),
                      (''multipleRepo'', JArr [JStr ''me/one'', JStr ''me/two''])]) [])
        1 (File note1) ''main'' (Some repoD) 0 labelledMenu)) 3)
   \<noteq> title (items (snd (subMenuCommandsFile
        (mobile\<lparr>getRepoFrontmatter := (\<lambda>s r fm. Inr (Many [rfOne, rfTwo]))\<rparr>)
        (vault (Some [(''share'', JBool True),
                      (''multipleRepo'', JArr [JStr ''me/one'', JStr ''me/two''])]) [])
        1 (File note1) ''main'' (Some repoD) 0 labelledMenu)) 4)"
  using repoFrontmatter_entries_same_target
  by (simp add: case_prod_beta)

subsection \<open>When \<^verbatim>\<open>addMenuFile\<close> adds an entry\<close>

text \<open>
  Claim C2. \<^verbatim>\<open>addMenuFile\<close> adds its entry only when \<^verbatim>\<open>isShared\<close>, called on the
  frontmatter of the file and the repository that \<^verbatim>\<open>getRepoSharedKey\<close> found, returns
  true and the setting \<^verbatim>\<open>fileMenu\<close> is on: whenever that is not so (the file is not
  shared, the setting is off, or one of the calls before threw), the menus and the items
  of the store are what they were. When it is so and \<^verbatim>\<open>getRepoFrontmatter\<close> returns,
  the next entry of the menu is a new item.
\<close>

theorem addMenuFile_only_when_shared:
  assumes "addMenuFile m plugin file branchName menu h = (r, h')"
  shows "(\<not> (plugin_fileMenu (settings plugin) \<and>
             (\<exists>fm key.
                (case file of
                   File f \<Rightarrow> (\<exists>cm. getFileCache plugin file = Some cm \<and> fm = cm_frontmatter cm)
                 | Folder d \<Rightarrow> fm = None)
                \<and> getRepoSharedKey m (settings plugin) fm = Inr key
                \<and> isShared m fm (settings plugin) file key = Inr True))
          \<longrightarrow> menus h' = menus h \<and> items h' = items h \<and> n_items h' = n_items h
                \<and> n_menus h' = n_menus h)
       \<and> (\<forall>fm key keys rfs.
             (case file of
                File f \<Rightarrow> (\<exists>cm. getFileCache plugin file = Some cm \<and> fm = cm_frontmatter cm)
              | Folder d \<Rightarrow> fm = None)
             \<and> getRepoSharedKey m (settings plugin) fm = Inr key
             \<and> multipleSharedKey m fm (settings plugin) = Inr keys
             \<and> isShared m fm (settings plugin) file key = Inr True
             \<and> plugin_fileMenu (settings plugin)
             \<and> getRepoFrontmatter m (settings plugin) key fm = Inr rfs
             \<and> menu < n_menus h
          \<longrightarrow> take (Suc (length (menus h menu))) (menus h' menu)
                = menus h menu @ [ItemEntry (n_items h)])"
proof (intro conjI allI impI)
  assume "\<not> (plugin_fileMenu (settings plugin) \<and>
             (\<exists>fm key.
                (case file of
                   File f \<Rightarrow> (\<exists>cm. getFileCache plugin file = Some cm \<and> fm = cm_frontmatter cm)
                 | Folder d \<Rightarrow> fm = None)
                \<and> getRepoSharedKey m (settings plugin) fm = Inr key
                \<and> isShared m fm (settings plugin) file key = Inr True))"
  with assms show "menus h' = menus h" "items h' = items h" "n_items h' = n_items h"
    "n_menus h' = n_menus h"
    by (auto simp: addMenuFile_def run split: TAbstractFile.splits option.splits sum.splits if_splits)
next
  fix fm key keys rfs
  assume a: "(case file of
                File f \<Rightarrow> (\<exists>cm. getFileCache plugin file = Some cm \<and> fm = cm_frontmatter cm)
              | Folder d \<Rightarrow> fm = None)
             \<and> getRepoSharedKey m (settings plugin) fm = Inr key
             \<and> multipleSharedKey m fm (settings plugin) = Inr keys
             \<and> isShared m fm (settings plugin) file key = Inr True
             \<and> plugin_fileMenu (settings plugin)
             \<and> getRepoFrontmatter m (settings plugin) key fm = Inr rfs
             \<and> menu < n_menus h"
  define h1 where "h1 = pushItem menu newItem
     (logged [GetRepoSharedKey, MultipleSharedKey, IsShared, GetRepoFrontmatter] h)"
  from a assms have "addMenuFile_item m plugin file branchName menu fm key keys rfs (n_items h) h1
      = (r, h')"
    by (auto simp: addMenuFile_def run addItem_def Let_def h1_def pushItem_def logged_def outcome_def
        split: TAbstractFile.splits)
  then have "kept h1 h'"
    by (rule faithful_kept[OF faithful_addMenuFile_item])
  moreover have "menu < n_menus h1" "menus h1 menu = menus h menu @ [ItemEntry (n_items h)]"
    using a by (simp_all add: h1_def pushItem_def logged_def)
  ultimately show "take (Suc (length (menus h menu))) (menus h' menu)
                = menus h menu @ [ItemEntry (n_items h)]"
    by (auto simp: kept_def)
qed

theorem addMenuFile_only_when_shared_witness:
  "(case addMenuFile (desktop\<lparr>isShared := (\<lambda>fm s f r. Inr False)\<rparr>)
           (vault (Some [(''share'', JBool False)]) []) (File note1) ''main'' 0 hostMenu of
      (r, h') \<Rightarrow> r = Inr () \<and> menus h' = menus hostMenu \<and> items h' = items hostMenu)
   \<and> (case addMenuFile desktop
           ((vault (Some [(''share'', JBool True)]) [])\<lparr>settings :=
              (settings (vault None []))\<lparr>plugin_fileMenu := False\<rparr>\<rparr>)
           (File note1) ''main'' 0 hostMenu of
      (r, h') \<Rightarrow> r = Inr () \<and> menus h' = menus hostMenu \<and> items h' = items hostMenu)
   \<and> (case addMenuFile desktop (vault (Some [(''share'', JBool True)]) []) (File note1)
           ''main'' 0 hostMenu of
      (r, h') \<Rightarrow> r = Inr () \<and> menus h' 0 = [ItemEntry 0, ItemEntry 1])"
  using
    addMenuFile_only_when_shared[OF surjective_pairing,
      of "vault (Some [(''share'', JBool False)]) []" "File note1"
         "desktop\<lparr>isShared := (\<lambda>fm s f r. Inr False)\<rparr>" "''main''" 0 hostMenu]
    addMenuFile_only_when_shared[OF surjective_pairing,
      of "(vault (Some [(''share'', JBool True)]) [])\<lparr>settings :=
              (settings (vault None []))\<lparr>plugin_fileMenu := False\<rparr>\<rparr>" "File note1"
         desktop "''main''" 0 hostMenu]
    addMenuFile_only_when_shared[OF surjective_pairing,
      of "vault (Some [(''share'', JBool True)]) []" "File note1" desktop "''main''" 0 hostMenu]
  by (simp add: examples model)

subsection \<open>A submenu, an inline group or a single action\<close>

text \<open>
  Claim C3, amended. Let the file be shared, the setting on and the calls return, and say
  the file has several targets when \<^verbatim>\<open>multipleSharedKey\<close> returns more than one key or
  \<^verbatim>\<open>getRepoFrontmatter\<close> returns a list of more than one. With several targets on the
  desktop, \<^verbatim>\<open>addMenuFile\<close> adds one item, titled "Github Publisher", whose new submenu
  holds the choices of \<^verbatim>\<open>subMenuCommandsFile\<close>. With several targets on another platform
  it creates no submenu: it adds a label, a separator and then the same choices to the
  menu itself. Without several targets it adds, on every platform, one item with the
  handler that shares the note and no submenu.
\<close>

theorem addMenuFile_affordance:
  assumes "getFileCache plugin (File f) = Some cm"
    and "getRepoSharedKey m (settings plugin) (cm_frontmatter cm) = Inr key"
    and "multipleSharedKey m (cm_frontmatter cm) (settings plugin) = Inr keys"
    and "isShared m (cm_frontmatter cm) (settings plugin) (File f) key = Inr True"
    and "plugin_fileMenu (settings plugin)"
    and "getRepoFrontmatter m (settings plugin) key (cm_frontmatter cm) = Inr rfs"
    and "getTitleFieldForCommand plugin (File f) (cm_frontmatter cm) = Inr t"
    and "defaultRepo m (settings plugin) = Inr d"
    and "menu < n_menus h"
    and "addMenuFile m plugin (File f) branchName menu h = (r, h')"
  shows "r = Inr ()
     \<and> (1 < length keys \<or> (case rfs of Many rs \<Rightarrow> 1 < length rs | One r \<Rightarrow> False) \<longrightarrow>
          (isDesktop m \<longrightarrow>
             menus h' menu = menus h menu @ [ItemEntry (n_items h)]
           \<and> items h' (n_items h) = parentItem (n_menus h)
           \<and> shown h' (menus h' (n_menus h))
               = map Some (fileChoices m plugin (File f) branchName key (replaceFirst ''.md'' [] t) rfs))
        \<and> (\<not> isDesktop m \<longrightarrow>
             menus h' menu = menus h menu @ ItemEntry (n_items h) # Separator
                # map ItemEntry [Suc (n_items h) ..< n_items h']
           \<and> items h' (n_items h) = labelItem
           \<and> shown h' (map ItemEntry [Suc (n_items h) ..< n_items h'])
               = map Some (fileChoices m plugin (File f) branchName key (replaceFirst ''.md'' [] t) rfs)
           \<and> n_menus h' = n_menus h))
     \<and> (\<not> (1 < length keys \<or> (case rfs of Many rs \<Rightarrow> 1 < length rs | One r \<Rightarrow> False)) \<longrightarrow>
           menus h' menu = menus h menu @ [ItemEntry (n_items h)]
         \<and> n_items h' = Suc (n_items h) \<and> n_menus h' = n_menus h
         \<and> (\<exists>k target. items h' (n_items h) =
               actionItem (titleOn m k (replaceFirst ''.md'' [] t)) ''file-up''
                 (ShareFile branchName (File f) target (replaceFirst ''.md'' [] t))))"
proof -
  note sub = subMenuCommandsFile_run[of plugin "File f" t m key rfs,
      unfolded cachedFrontmatter_Some[OF assms(1)], OF assms(7) assms(6)]
  let ?several = "1 < length keys \<or> (case rfs of Many rs \<Rightarrow> 1 < length rs | One r \<Rightarrow> False)"
  have single: "\<not> ?several \<Longrightarrow>
       r = Inr () \<and> menus h' menu = menus h menu @ [ItemEntry (n_items h)]
         \<and> n_items h' = Suc (n_items h) \<and> n_menus h' = n_menus h
         \<and> (\<exists>k target. items h' (n_items h) =
               actionItem (titleOn m k (replaceFirst ''.md'' [] t)) ''file-up''
                 (ShareFile branchName (File f) target (replaceFirst ''.md'' [] t)))"
    using assms
    by (auto simp: addMenuFile_def addMenuFile_item_def run addItem_def Let_def setters
        cachedFrontmatter_Some outcome_def actionItem_def newItem_def split: option.splits if_splits)
  have desk: "?several \<Longrightarrow> isDesktop m \<Longrightarrow>
       r = Inr () \<and> menus h' menu = menus h menu @ [ItemEntry (n_items h)]
           \<and> items h' (n_items h) = parentItem (n_menus h)
           \<and> shown h' (menus h' (n_menus h))
               = map Some (fileChoices m plugin (File f) branchName key (replaceFirst ''.md'' [] t) rfs)"
    using assms
    by (auto simp add: addMenuFile_def addMenuFile_item_def run addItem_def Let_def setters sub
        outcome_def logged_def parentItem_def newItem_def menus_pushItems items_pushItems shown_new'
        simp del: upt_Suc)
  have mob: "?several \<Longrightarrow> \<not> isDesktop m \<Longrightarrow>
       r = Inr () \<and> menus h' menu = menus h menu @ ItemEntry (n_items h) # Separator
                # map ItemEntry [Suc (n_items h) ..< n_items h']
           \<and> items h' (n_items h) = labelItem
           \<and> shown h' (map ItemEntry [Suc (n_items h) ..< n_items h'])
               = map Some (fileChoices m plugin (File f) branchName key (replaceFirst ''.md'' [] t) rfs)
           \<and> n_menus h' = n_menus h"
    using assms
    by (auto simp add: addMenuFile_def addMenuFile_item_def run addItem_def Let_def setters sub
        outcome_def logged_def labelItem_def newItem_def menus_pushItems items_pushItems shown_new'
        n_items_pushItems n_menus_pushItems
        simp del: upt_Suc)
  from single desk mob show ?thesis
    by blast
qed

text \<open>
  The claim as it was stated fails where the platform is not the desktop: the file below
  has two keys, and after \<^verbatim>\<open>addMenuFile\<close> no menu has been created and none of the five
  items has a submenu; the choices are entries of the menu itself.
\<close>

theorem addMenuFile_affordance_counterexample:
  "multipleSharedKey (mobile\<lparr>multipleSharedKey := (\<lambda>fm s. Inr [''share'', ''shareA''])\<rparr>)
      (Some [(''share'', JBool True), (''shareA'', JBool True)])
      (settings (vault (Some [(''share'', JBool True), (''shareA'', JBool True)]) [repoA]))
     = Inr [''share'', ''shareA'']
   \<and> (case addMenuFile (mobile\<lparr>multipleSharedKey := (\<lambda>fm s. Inr [''share'', ''shareA''])\<rparr>)
             (vault (Some [(''share'', JBool True), (''shareA'', JBool True)]) [repoA])
             (File note1) ''main'' 0 hostMenu of
        (r, h') \<Rightarrow>
          r = Inr () \<and> n_menus h' = n_menus hostMenu \<and> n_items h' = 5
          \<and> map (\<lambda>i. submenu (items h' i)) [0, 1, 2, 3, 4] = [None, None, None, None, None]
          \<and> menus h' 0 = [ItemEntry 0, ItemEntry 1, Separator, ItemEntry 2, ItemEntry 3, ItemEntry 4])"
  by (simp add: examples model forEach_guard)

theorem addMenuFile_affordance_witness:
  "(case addMenuFile (desktop\<lparr>multipleSharedKey := (\<lambda>fm s. Inr [''share'', ''shareA''])\<rparr>)
             (vault (Some [(''share'', JBool True), (''shareA'', JBool True)]) [repoA])
             (File note1) ''main'' 0 hostMenu of
        (r, h') \<Rightarrow>
          r = Inr () \<and> menus h' 0 = [ItemEntry 0, ItemEntry 1] \<and> items h' 1 = parentItem 1
          \<and> map (\<lambda>e. map_option onClick e) (shown h' (menus h' 1)) =
               [Some (Some (ShareFileDefault ''main'' (File note1) ''n'')),
                Some (Some (ShareFile ''main'' (File note1) (Some repoA) ''n'')),
                Some (Some (ChooseFile (Some repoD) ''main'' (File note1) ''n''))])
   \<and> (case addMenuFile (mobile\<lparr>multipleSharedKey := (\<lambda>fm s. Inr [''share'', ''shareA''])\<rparr>)
             (vault (Some [(''share'', JBool True), (''shareA'', JBool True)]) [repoA])
             (File note1) ''main'' 0 hostMenu of
        (r, h') \<Rightarrow>
          r = Inr () \<and> items h' 1 = labelItem
          \<and> menus h' 0 = [ItemEntry 0, ItemEntry 1, Separator, ItemEntry 2, ItemEntry 3, ItemEntry 4])
   \<and> (case addMenuFile desktop (vault (Some [(''share'', JBool True)]) [repoA])
             (File note1) ''main'' 0 hostMenu of
        (r, h') \<Rightarrow>
          r = Inr () \<and> menus h' 0 = [ItemEntry 0, ItemEntry 1] \<and> n_menus h' = 1
          \<and> onClick (items h' 1) = Some (ShareFile ''main'' (File note1) (Some repoD) ''n''))"
proof -
  let ?fm2 = "Some [(''share'', JBool True), (''shareA'', JBool True)]"
  let ?v2 = "vault ?fm2 [repoA]"
  let ?d2 = "desktop\<lparr>multipleSharedKey := (\<lambda>fm s. Inr [''share'', ''shareA''])\<rparr>"
  let ?m2 = "mobile\<lparr>multipleSharedKey := (\<lambda>fm s. Inr [''share'', ''shareA''])\<rparr>"
  let ?fm1 = "Some [(''share'', JBool True)]"
  let ?v1 = "vault ?fm1 [repoA]"
  have a: "fst (addMenuFile ?d2 ?v2 (File note1) ''main'' 0 hostMenu) = Inr ()"
    using addMenuFile_affordance[where plugin="?v2" and f=note1 and cm="\<lparr>cm_frontmatter = ?fm2\<rparr>"
        and m="?d2" and key="Some repoD" and keys="[''share'', ''shareA'']" and rfs="One rfOne"
        and t="''n.md''" and d=repoD and menu=0 and h=hostMenu and branchName="''main''",
        OF _ _ _ _ _ _ _ _ _ surjective_pairing]
    by (simp add: examples)
  have b: "fst (addMenuFile ?m2 ?v2 (File note1) ''main'' 0 hostMenu) = Inr ()"
    using addMenuFile_affordance[where plugin="?v2" and f=note1 and cm="\<lparr>cm_frontmatter = ?fm2\<rparr>"
        and m="?m2" and key="Some repoD" and keys="[''share'', ''shareA'']" and rfs="One rfOne"
        and t="''n.md''" and d=repoD and menu=0 and h=hostMenu and branchName="''main''",
        OF _ _ _ _ _ _ _ _ _ surjective_pairing]
    by (simp add: examples)
  have c: "fst (addMenuFile desktop ?v1 (File note1) ''main'' 0 hostMenu) = Inr ()"
    using addMenuFile_affordance[where plugin="?v1" and f=note1 and cm="\<lparr>cm_frontmatter = ?fm1\<rparr>"
        and m=desktop and key="Some repoD" and keys="[''share'']" and rfs="One rfOne"
        and t="''n.md''" and d=repoD and menu=0 and h=hostMenu and branchName="''main''",
        OF _ _ _ _ _ _ _ _ _ surjective_pairing]
    by (simp add: examples)
  from a b c show ?thesis
    by (simp add: examples model forEach_guard shown_def)
qed

subsection \<open>The target of the single action\<close>

text \<open>
  Claim C4, amended. Let the file be a \<^verbatim>\<open>TFile\<close> with an entry in the cache, and let
  every function called return: \<^verbatim>\<open>getRepoSharedKey\<close>, \<^verbatim>\<open>multipleSharedKey\<close>,
  \<^verbatim>\<open>isShared\<close> with true, \<^verbatim>\<open>getRepoFrontmatter\<close>, \<^verbatim>\<open>getTitleFieldForCommand\<close> and
  \<^verbatim>\<open>defaultRepo\<close>; let the setting \<^verbatim>\<open>fileMenu\<close> be on and the file not have several
  targets. Then the handler of the single item carries this repository. When the property
  \<^verbatim>\<open>frontmatter[shareKey]\<close> reads truthy, the default repository; the property is read
  as JavaScript reads it, so a share key that names a property inherited from
  \<^verbatim>\<open>Object.prototype\<close>, such as \<^verbatim>\<open>toString\<close>, reads truthy on every frontmatter. When
  there is no frontmatter or the property reads falsy (it is missing, or its value is
  \<^verbatim>\<open>false\<close>, \<^verbatim>\<open>0\<close>, \<^verbatim>\<open>NaN\<close>, the empty string or \<^verbatim>\<open>null\<close>), the first other
  repository whose \<^verbatim>\<open>shareAll\<close> is enabled, or else the default repository when the
  \<^verbatim>\<open>shareAll\<close> of the plugin is enabled, or else the repository that
  \<^verbatim>\<open>getRepoSharedKey\<close> returned.
\<close>

theorem addMenuFile_single_target:
  assumes "getFileCache plugin (File f) = Some cm"
    and "getRepoSharedKey m (settings plugin) (cm_frontmatter cm) = Inr key"
    and "multipleSharedKey m (cm_frontmatter cm) (settings plugin) = Inr keys"
    and "isShared m (cm_frontmatter cm) (settings plugin) (File f) key = Inr True"
    and "plugin_fileMenu (settings plugin)"
    and "getRepoFrontmatter m (settings plugin) key (cm_frontmatter cm) = Inr rfs"
    and "getTitleFieldForCommand plugin (File f) (cm_frontmatter cm) = Inr t"
    and "defaultRepo m (settings plugin) = Inr d"
    and "\<not> (1 < length keys \<or> (case rfs of Many rs \<Rightarrow> 1 < length rs | One r \<Rightarrow> False))"
    and "addMenuFile m plugin (File f) branchName menu h = (r, h')"
  shows "r = Inr ()
     \<and> onClick (items h' (n_items h)) =
         Some (ShareFile branchName (File f)
           (if truthy (getProp (cm_frontmatter cm) (plugin_shareKey (settings plugin))) then Some d
            else (case find (\<lambda>repo. shareAllEnabled (shareAll repo))
                         (github_otherRepo (settings plugin)) of
                    Some otherRepo \<Rightarrow> Some otherRepo
                  | None \<Rightarrow> if shareAllEnabled (plugin_shareAll (settings plugin)) then Some d
                            else key))
           (replaceFirst ''.md'' [] t))"
proof -
  have none: "\<not> truthy (getProp None k)" for k
    by (simp add: getProp_def)
  show ?thesis
    using assms none
    by (auto simp: addMenuFile_def addMenuFile_item_def run addItem_def Let_def setters
        cachedFrontmatter_Some outcome_def split: option.splits if_splits)
qed

text \<open>
  Having the share key is not enough for the default repository: the frontmatter below has
  \<^verbatim>\<open>share: false\<close>, and the target is the other repository that shares every note.
\<close>

theorem addMenuFile_single_target_counterexample:
  "getProp (Some [(''share'', JBool False)]) ''share'' = Some (JBool False)
   \<and> defaultRepo desktop (settings (vault (Some [(''share'', JBool False)]) [repoA, repoB])) = Inr repoD
   \<and> repoB \<noteq> repoD
   \<and> (case addMenuFile desktop (vault (Some [(''share'', JBool False)]) [repoA, repoB])
             (File note1) ''main'' 0 hostMenu of
        (r, h') \<Rightarrow>
          r = Inr () \<and> menus h' 0 = [ItemEntry 0, ItemEntry 1]
          \<and> onClick (items h' 1) = Some (ShareFile ''main'' (File note1) (Some repoB) ''n''))"
  by (simp add: examples model)

theorem addMenuFile_single_target_witness:
  "onClick (items (snd (addMenuFile desktop (vault (Some [(''share'', JBool False)]) [repoA, repoB])
                     (File note1) ''main'' 0 hostMenu)) 1)
     = Some (ShareFile ''main'' (File note1) (Some repoB) ''n'')
   \<and> onClick (items (snd (addMenuFile desktop (vault (Some [(''share'', JBool True)]) [repoA, repoB])
                     (File note1) ''main'' 0 hostMenu)) 1)
     = Some (ShareFile ''main'' (File note1) (Some repoD) ''n'')
   \<and> onClick (items (snd (addMenuFile (desktop\<lparr>getRepoSharedKey := (\<lambda>s fm. Inr (Some repoA))\<rparr>)
                     (vault (Some [(''shareA'', JBool True)]) [repoA])
                     (File note1) ''main'' 0 hostMenu)) 1)
     = Some (ShareFile ''main'' (File note1) (Some repoA) ''n'')
   \<and> onClick (items (snd (addMenuFile desktop
                     ((vault (Some [(''title'', JStr ''x'')]) [repoB])\<lparr>settings :=
                        (settings (vault None [repoB]))\<lparr>plugin_shareKey := ''toString''\<rparr>\<rparr>)
                     (File note1) ''main'' 0 hostMenu)) 1)
     = Some (ShareFile ''main'' (File note1) (Some repoD) ''n'')
   \<and> onClick (items (snd (addMenuFile desktop (vault (Some [(''share'', JNaN)]) [repoA, repoB])
                     (File note1) ''main'' 0 hostMenu)) 1)
     = Some (ShareFile ''main'' (File note1) (Some repoB) ''n'')"
proof -
  let ?fmF = "Some [(''share'', JBool False)]"
  let ?fmX = "Some [(''title'', JStr ''x'')]"
  let ?vX = "(vault ?fmX [repoB])\<lparr>settings :=
               (settings (vault None [repoB]))\<lparr>plugin_shareKey := ''toString''\<rparr>\<rparr>"
  let ?fmN = "Some [(''share'', JNaN)]"
  let ?fmT = "Some [(''share'', JBool True)]"
  let ?fmA = "Some [(''shareA'', JBool True)]"
  let ?mA = "desktop\<lparr>getRepoSharedKey := (\<lambda>s fm. Inr (Some repoA))\<rparr>"
  have a: "onClick (items (snd (addMenuFile desktop (vault ?fmF [repoA, repoB])
                     (File note1) ''main'' 0 hostMenu)) 1)
     = Some (ShareFile ''main'' (File note1) (Some repoB) ''n'')"
    using addMenuFile_single_target[where plugin="vault ?fmF [repoA, repoB]" and f=note1
        and cm="\<lparr>cm_frontmatter = ?fmF\<rparr>" and m=desktop and key="Some repoD" and keys="[''share'']"
        and rfs="One rfOne" and t="''n.md''" and d=repoD and menu=0 and h=hostMenu
        and branchName="''main''", OF _ _ _ _ _ _ _ _ _ surjective_pairing]
    by (simp add: examples getProp_def objectPrototype_def shareAllEnabled_def)
  have b: "onClick (items (snd (addMenuFile desktop (vault ?fmT [repoA, repoB])
                     (File note1) ''main'' 0 hostMenu)) 1)
     = Some (ShareFile ''main'' (File note1) (Some repoD) ''n'')"
    using addMenuFile_single_target[where plugin="vault ?fmT [repoA, repoB]" and f=note1
        and cm="\<lparr>cm_frontmatter = ?fmT\<rparr>" and m=desktop and key="Some repoD" and keys="[''share'']"
        and rfs="One rfOne" and t="''n.md''" and d=repoD and menu=0 and h=hostMenu
        and branchName="''main''", OF _ _ _ _ _ _ _ _ _ surjective_pairing]
    by (simp add: examples getProp_def objectPrototype_def shareAllEnabled_def)
  have c: "onClick (items (snd (addMenuFile ?mA (vault ?fmA [repoA])
                     (File note1) ''main'' 0 hostMenu)) 1)
     = Some (ShareFile ''main'' (File note1) (Some repoA) ''n'')"
    using addMenuFile_single_target[where plugin="vault ?fmA [repoA]" and f=note1
        and cm="\<lparr>cm_frontmatter = ?fmA\<rparr>" and m="?mA" and key="Some repoA" and keys="[''share'']"
        and rfs="One rfOne" and t="''n.md''" and d=repoD and menu=0 and h=hostMenu
        and branchName="''main''", OF _ _ _ _ _ _ _ _ _ surjective_pairing]
    by (simp add: examples getProp_def objectPrototype_def shareAllEnabled_def)
  have d: "onClick (items (snd (addMenuFile desktop ?vX (File note1) ''main'' 0 hostMenu)) 1)
     = Some (ShareFile ''main'' (File note1) (Some repoD) ''n'')"
    using addMenuFile_single_target[where plugin="?vX" and f=note1
        and cm="\<lparr>cm_frontmatter = ?fmX\<rparr>" and m=desktop and key="Some repoD" and keys="[''share'']"
        and rfs="One rfOne" and t="''n.md''" and d=repoD and menu=0 and h=hostMenu
        and branchName="''main''", OF _ _ _ _ _ _ _ _ _ surjective_pairing]
    by (simp add: examples getProp_def objectPrototype_def shareAllEnabled_def)
  have e: "onClick (items (snd (addMenuFile desktop (vault ?fmN [repoA, repoB])
                     (File note1) ''main'' 0 hostMenu)) 1)
     = Some (ShareFile ''main'' (File note1) (Some repoB) ''n'')"
    using addMenuFile_single_target[where plugin="vault ?fmN [repoA, repoB]" and f=note1
        and cm="\<lparr>cm_frontmatter = ?fmN\<rparr>" and m=desktop and key="Some repoD" and keys="[''share'']"
        and rfs="One rfOne" and t="''n.md''" and d=repoD and menu=0 and h=hostMenu
        and branchName="''main''", OF _ _ _ _ _ _ _ _ _ surjective_pairing]
    by (simp add: examples getProp_def objectPrototype_def shareAllEnabled_def)
  from a b c d e show ?thesis
    by simp
qed

subsection \<open>The menu of a folder\<close>

text \<open>
  Claim C5, amended. \<^verbatim>\<open>addMenuFolder\<close> always returns. When the settings list no other
  repository it adds exactly one item, in the section "action", whose click shares the
  folder with the repository that \<^verbatim>\<open>getRepoSharedKey(settings, undefined)\<close> returns. When
  they list one or more, on the desktop it adds one item whose new submenu holds the
  choices of \<^verbatim>\<open>addSubMenuCommandsFolder\<close>; on another platform it creates no submenu and
  adds a label, a separator and then the same choices to the menu itself.
\<close>

theorem addMenuFolder_affordance:
  assumes "menu < n_menus h"
    and "addMenuFolder m menu folder branchName plugin h = (r, h')"
  shows "r = Inr ()
    \<and> (github_otherRepo (settings plugin) = [] \<longrightarrow>
           menus h' menu = menus h menu @ [ItemEntry (n_items h)]
         \<and> items h' (n_items h) =
             (actionItem (titleOn m (defaultKey m) (name folder)) ''folder-up''
                (ShareFolderDefault folder branchName))\<lparr>sectionName := Some ''action''\<rparr>
         \<and> n_items h' = Suc (n_items h) \<and> n_menus h' = n_menus h)
    \<and> (github_otherRepo (settings plugin) \<noteq> [] \<and> isDesktop m \<longrightarrow>
           menus h' menu = menus h menu @ [ItemEntry (n_items h)]
         \<and> items h' (n_items h) = parentItem (n_menus h)
         \<and> shown h' (menus h' (n_menus h)) = map Some (folderChoices m plugin folder branchName))
    \<and> (github_otherRepo (settings plugin) \<noteq> [] \<and> \<not> isDesktop m \<longrightarrow>
           menus h' menu = menus h menu @ ItemEntry (n_items h) # Separator
              # map ItemEntry [Suc (n_items h) ..< n_items h']
         \<and> items h' (n_items h) = labelItem
         \<and> shown h' (map ItemEntry [Suc (n_items h) ..< n_items h'])
              = map Some (folderChoices m plugin folder branchName)
         \<and> n_menus h' = n_menus h)
    \<and> (\<forall>repo h0. getRepoSharedKey m (settings plugin) None = Inr repo \<longrightarrow>
           click m plugin (ShareFolderDefault folder branchName) h0
             = shareFolderRepo m plugin folder branchName repo (logged [GetRepoSharedKey] h0))"
proof -
  have ok: "r = Inr ()"
    using assms(2)
    by (auto simp: addMenuFolder_def addItem_def Let_def run setters addSubMenuCommandsFolder_run
        split: if_splits)
  have single: "github_otherRepo (settings plugin) = [] \<Longrightarrow>
           menus h' menu = menus h menu @ [ItemEntry (n_items h)]
         \<and> items h' (n_items h) =
             (actionItem (titleOn m (defaultKey m) (name folder)) ''folder-up''
                (ShareFolderDefault folder branchName))\<lparr>sectionName := Some ''action''\<rparr>
         \<and> n_items h' = Suc (n_items h) \<and> n_menus h' = n_menus h"
    using assms(2)
    by (auto simp: addMenuFolder_def addItem_def Let_def run setters actionItem_def newItem_def)
  have desk: "github_otherRepo (settings plugin) \<noteq> [] \<Longrightarrow> isDesktop m \<Longrightarrow>
           menus h' menu = menus h menu @ [ItemEntry (n_items h)]
         \<and> items h' (n_items h) = parentItem (n_menus h)
         \<and> shown h' (menus h' (n_menus h)) = map Some (folderChoices m plugin folder branchName)"
    using assms
    by (auto simp add: addMenuFolder_def addItem_def Let_def run setters
        addSubMenuCommandsFolder_run menus_pushItems items_pushItems shown_new'
        newItem_def parentItem_def simp del: upt_Suc)
  have mob: "github_otherRepo (settings plugin) \<noteq> [] \<Longrightarrow> \<not> isDesktop m \<Longrightarrow>
           menus h' menu = menus h menu @ ItemEntry (n_items h) # Separator
              # map ItemEntry [Suc (n_items h) ..< n_items h']
         \<and> items h' (n_items h) = labelItem
         \<and> shown h' (map ItemEntry [Suc (n_items h) ..< n_items h'])
              = map Some (folderChoices m plugin folder branchName)
         \<and> n_menus h' = n_menus h"
    using assms
    by (auto simp add: addMenuFolder_def addItem_def Let_def run setters
        addSubMenuCommandsFolder_run menus_pushItems items_pushItems shown_new' n_items_pushItems
        n_menus_pushItems newItem_def labelItem_def simp del: upt_Suc)
  have cl: "getRepoSharedKey m (settings plugin) None = Inr repo \<Longrightarrow>
           click m plugin (ShareFolderDefault folder branchName) h0
             = shareFolderRepo m plugin folder branchName repo (logged [GetRepoSharedKey] h0)"
    for repo h0
    by (simp add: run logged_def outcome_def)
  from ok single desk mob cl show ?thesis
    by blast
qed

text \<open>
  The claim as it was stated fails where the platform is not the desktop: the settings
  below list two other repositories, and after \<^verbatim>\<open>addMenuFolder\<close> no menu has been
  created and none of the five items has a submenu.
\<close>

theorem addMenuFolder_affordance_counterexample:
  "github_otherRepo (settings (vault None [repoA, repoB])) \<noteq> []
   \<and> (case addMenuFolder mobile 0 dir1 ''main'' (vault None [repoA, repoB]) hostMenu of
        (r, h') \<Rightarrow>
          r = Inr () \<and> n_menus h' = n_menus hostMenu \<and> n_items h' = 5
          \<and> map (\<lambda>i. submenu (items h' i)) [0, 1, 2, 3, 4] = [None, None, None, None, None]
          \<and> menus h' 0 = [ItemEntry 0, ItemEntry 1, Separator, ItemEntry 2, ItemEntry 3, ItemEntry 4])"
  by (simp add: examples model forEach_guard)

theorem addMenuFolder_affordance_witness:
  "0 < n_menus hostMenu
   \<and> (case addMenuFolder desktop 0 dir1 ''main'' (vault None [repoA, repoB]) hostMenu of
        (r, h') \<Rightarrow>
          r = Inr () \<and> menus h' 0 = [ItemEntry 0, ItemEntry 1] \<and> items h' 1 = parentItem 1
          \<and> map (\<lambda>e. map_option onClick e) (shown h' (menus h' 1)) =
               [Some (Some (ShareFolderDefault dir1 ''main'')),
                Some (Some (ShareFolderOther dir1 ''main'' repoA)),
                Some (Some (ChooseFolder dir1 ''main''))])
   \<and> (case addMenuFolder mobile 0 dir1 ''main'' (vault None [repoA, repoB]) hostMenu of
        (r, h') \<Rightarrow>
          r = Inr () \<and> items h' 1 = labelItem
          \<and> menus h' 0 = [ItemEntry 0, ItemEntry 1, Separator, ItemEntry 2, ItemEntry 3, ItemEntry 4])
   \<and> (case addMenuFolder desktop 0 dir1 ''main'' (vault None []) hostMenu of
        (r, h') \<Rightarrow>
          r = Inr () \<and> menus h' 0 = [ItemEntry 0, ItemEntry 1] \<and> n_menus h' = 1
          \<and> onClick (items h' 1) = Some (ShareFolderDefault dir1 ''main'')
          \<and> sectionName (items h' 1) = Some ''action'')"
proof -
  have h: "0 < n_menus hostMenu"
    by (simp add: examples)
  have a: "fst (addMenuFolder desktop 0 dir1 ''main'' (vault None [repoA, repoB]) hostMenu) = Inr ()"
    using addMenuFolder_affordance[OF h surjective_pairing,
        of desktop dir1 "''main''" "vault None [repoA, repoB]"]
    by simp
  have b: "fst (addMenuFolder mobile 0 dir1 ''main'' (vault None [repoA, repoB]) hostMenu) = Inr ()"
    using addMenuFolder_affordance[OF h surjective_pairing,
        of mobile dir1 "''main''" "vault None [repoA, repoB]"]
    by simp
  have c: "fst (addMenuFolder desktop 0 dir1 ''main'' (vault None []) hostMenu) = Inr ()"
    using addMenuFolder_affordance[OF h surjective_pairing,
        of desktop dir1 "''main''" "vault None []"]
    by simp
  from h a b c show ?thesis
    by (simp add: examples model forEach_guard shown_def)
qed

subsection \<open>The entries of the submenu of a folder\<close>

text \<open>
  Claim C6, amended. \<^verbatim>\<open>addSubMenuCommandsFolder\<close> adds these entries and no other, in
  this order: one for the default repository, one for each other repository of the
  settings whose \<^verbatim>\<open>createShortcuts\<close> is set, one that opens the chooser. On the desktop
  they are all that the submenu it creates and returns contains. On another platform it
  returns the original menu, which keeps the entries it had, with these added after them.
\<close>

theorem addSubMenuCommandsFolder_entries:
  assumes "addSubMenuCommandsFolder m plugin item folder branchName originalMenu h = (r, h')"
  shows "(isDesktop m \<longrightarrow>
            r = Inr (n_menus h)
          \<and> shown h' (menus h' (n_menus h)) =
              map Some
                (actionItem (titleOn m (defaultKey m) (name folder)) ''folder-up''
                   (ShareFolderDefault folder branchName)
                 # map (\<lambda>otherRepo.
                          actionItem (titleOn m (toUpperCase m (smartKey otherRepo)) (name folder))
                            ''folder-up'' (ShareFolderOther folder branchName otherRepo))
                     (filter createShortcuts (github_otherRepo (settings plugin)))
                 @ [actionItem (titleOther m) ''folder-symlink'' (ChooseFolder folder branchName)]))
       \<and> (\<not> isDesktop m \<longrightarrow>
            r = Inr originalMenu
          \<and> take (length (menus h originalMenu)) (menus h' originalMenu) = menus h originalMenu
          \<and> shown h' (drop (length (menus h originalMenu)) (menus h' originalMenu)) =
              map Some
                (actionItem (titleOn m (defaultKey m) (name folder)) ''folder-up''
                   (ShareFolderDefault folder branchName)
                 # map (\<lambda>otherRepo.
                          actionItem (titleOn m (toUpperCase m (smartKey otherRepo)) (name folder))
                            ''folder-up'' (ShareFolderOther folder branchName otherRepo))
                     (filter createShortcuts (github_otherRepo (settings plugin)))
                 @ [actionItem (titleOther m) ''folder-symlink'' (ChooseFolder folder branchName)]))"
  using assms
  by (auto simp add: addSubMenuCommandsFolder_run setSubmenu_def Let_def menus_pushItems shown_new'
      folderChoices_def[symmetric] simp del: upt_Suc split: if_splits)

text \<open>
  The claim as it was stated fails where the platform is not the desktop. Called as
  \<^verbatim>\<open>addMenuFolder\<close> calls it there, the function returns the menu of the host, which
  holds the item of the host, the label and the separator before the three entries.
\<close>

theorem addSubMenuCommandsFolder_entries_counterexample:
  "addMenuFolder mobile 0 dir1 ''main'' (vault None [repoA, repoB]) hostMenu
     = (Inr (), snd (addSubMenuCommandsFolder mobile (vault None [repoA, repoB]) 1 dir1 ''main'' 0
                       labelledMenu))
   \<and> (case addSubMenuCommandsFolder mobile (vault None [repoA, repoB]) 1 dir1 ''main'' 0
             labelledMenu of
        (r, h') \<Rightarrow>
          r = Inr 0
          \<and> shown h' (menus h' 0) =
               [Some renameItem, Some labelItem, None]
               @ map Some (folderChoices mobile (vault None [repoA, repoB]) dir1 ''main'')
          \<and> length (folderChoices mobile (vault None [repoA, repoB]) dir1 ''main'') = 3)"
  by (simp add: examples model forEach_guard shown_def folderChoices_def eval_nat_numeral)

theorem addSubMenuCommandsFolder_entries_witness:
  "(case addSubMenuCommandsFolder desktop (vault None [repoA, repoB]) 1 dir1 ''main'' 0 labelledMenu of
      (r, h') \<Rightarrow>
        r = Inr 1
        \<and> map (\<lambda>e. map_option onClick e) (shown h' (menus h' 1)) =
               [Some (Some (ShareFolderDefault dir1 ''main'')),
                Some (Some (ShareFolderOther dir1 ''main'' repoA)),
                Some (Some (ChooseFolder dir1 ''main''))])
   \<and> (case addSubMenuCommandsFolder mobile (vault None [repoA, repoB]) 1 dir1 ''main'' 0 labelledMenu of
      (r, h') \<Rightarrow>
        r = Inr 0
        \<and> take 3 (menus h' 0) = menus labelledMenu 0
        \<and> map (\<lambda>e. map_option onClick e) (shown h' (drop 3 (menus h' 0))) =
               [Some (Some (ShareFolderDefault dir1 ''main'')),
                Some (Some (ShareFolderOther dir1 ''main'' repoA)),
                Some (Some (ChooseFolder dir1 ''main''))])"
  using
    addSubMenuCommandsFolder_entries[OF surjective_pairing,
      of desktop "vault None [repoA, repoB]" 1 dir1 "''main''" 0 labelledMenu]
    addSubMenuCommandsFolder_entries[OF surjective_pairing,
      of mobile "vault None [repoA, repoB]" 1 dir1 "''main''" 0 labelledMenu]
  by (simp add: examples model forEach_guard shown_def)

subsection \<open>Building a menu shares nothing\<close>



subsection \<open>Errors are not handled here\<close>

text \<open>
  Claim C8. The five exported functions catch nothing: each is faithful to the errors of
  the functions it calls. When a call throws, it is the last call made and its error is
  the error of the function; a function that returns made only calls that returned; and
  the menus keep, after an error as after a return, the entries they had.
\<close>

theorem errors_pass_through:
  "faithful (shareFolderRepo m plugin folder branchName repo)
   \<and> faithful (addMenuFile m plugin file branchName menu)
   \<and> faithful (subMenuCommandsFile m plugin item file branchName repo menu)
   \<and> faithful (addMenuFolder m menu folder branchName plugin)
   \<and> faithful (addSubMenuCommandsFolder m plugin item folder branchName menu)"
  by (simp add: faithful_shareFolderRepo faithful_addMenuFile faithful_subMenuCommandsFile
      faithful_addMenuFolder faithful_addSubMenuCommandsFolder)

theorem errors_pass_through_witness:
  "(case addMenuFile (desktop\<lparr>defaultRepo := (\<lambda>s. Inl (Error ''no default repository''))\<rparr>)
          (vault (Some [(''share'', JBool True)]) [repoA]) (File note1) ''main'' 0 hostMenu of
      (r, h') \<Rightarrow>
        r = Inl (Error ''no default repository'')
        \<and> calls h' = [(GetRepoSharedKey, None), (MultipleSharedKey, None), (IsShared, None),
                       (GetRepoFrontmatter, None), (GetTitleFieldForCommand, None),
                       (DefaultRepo, Some (Error ''no default repository''))]
        \<and> menus h' 0 = [ItemEntry 0, ItemEntry 1] \<and> items h' 1 = newItem
        \<and> kept hostMenu h')"
  using errors_pass_through[THEN conjunct2, THEN conjunct1, unfolded faithful_def, rule_format,
      of hostMenu "desktop\<lparr>defaultRepo := (\<lambda>s. Inl (Error ''no default repository''))\<rparr>"
         "vault (Some [(''share'', JBool True)]) [repoA]" "File note1" "''main''" 0]
  by (simp add: examples model)

subsection \<open>A file the metadata cache does not know\<close>

text \<open>
  Claim C9. Line 98 reads \<^verbatim>\<open>.frontmatter\<close> of \<^verbatim>\<open>getFileCache(file)\<close> behind a
  non-null assertion. For a \<^verbatim>\<open>TFile\<close> that has no entry in the cache, \<^verbatim>\<open>addMenuFile\<close>
  throws the TypeError before it calls anything or touches the menu; so it returns
  normally only for a file the cache has an entry for.
\<close>

theorem addMenuFile_null_cache:
  "getFileCache plugin (File f) = None \<Longrightarrow>
     addMenuFile m plugin (File f) branchName menu h = (Inl nullFrontmatter, h)"
  by (simp add: addMenuFile_def run)

theorem addMenuFile_null_cache_witness:
  "getFileCache ((vault None [])\<lparr>getFileCache := (\<lambda>f. None)\<rparr>) (File note1) = None
   \<and> addMenuFile desktop ((vault None [])\<lparr>getFileCache := (\<lambda>f. None)\<rparr>) (File note1) ''main'' 0 emptyMenu
       = (Inl (TypeError ''Cannot read properties of null (reading frontmatter)''), emptyMenu)"
  using addMenuFile_null_cache[of "(vault None [])\<lparr>getFileCache := (\<lambda>f. None)\<rparr>" note1 desktop "''main''" 0 emptyMenu]
  by (simp add: nullFrontmatter_def)

subsection \<open>The chooser comes last\<close>

text \<open>
  Claim C10. The menu that \<^verbatim>\<open>addSubMenuCommandsFolder\<close> returns, and the menu that
  \<^verbatim>\<open>subMenuCommandsFile\<close> returns whenever it returns, is not empty and its last entry is
  the item titled "other repository" whose click opens \<^verbatim>\<open>ChooseRepoToRun\<close>, whatever
  the settings, the frontmatter, the platform and the entries added before.
  \<^verbatim>\<open>addSubMenuCommandsFolder\<close> always returns, and \<^verbatim>\<open>subMenuCommandsFile\<close> returns when
  \<^verbatim>\<open>getTitleFieldForCommand\<close> and \<^verbatim>\<open>getRepoFrontmatter\<close> do.
\<close>

theorem submenus_end_with_chooser:
  "(addSubMenuCommandsFolder m plugin item folder branchName originalMenu h = (r, h') \<longrightarrow>
      (\<exists>sub. r = Inr sub \<and> menus h' sub \<noteq> []
         \<and> last (shown h' (menus h' sub))
             = Some (actionItem (titleOther m) ''folder-symlink'' (ChooseFolder folder branchName))))
   \<and> (subMenuCommandsFile m plugin item fl branchName repo originalMenu h = (Inr sub', h'') \<longrightarrow>
      (\<exists>t. getTitleFieldForCommand plugin fl (cachedFrontmatter plugin fl) = Inr t
         \<and> menus h'' sub' \<noteq> []
         \<and> last (shown h'' (menus h'' sub'))
             = Some (actionItem (titleOther m) ''file-input''
                       (ChooseFile repo branchName fl (replaceFirst ''.md'' [] t)))))
   \<and> (getTitleFieldForCommand plugin fl (cachedFrontmatter plugin fl) = Inr t
        \<and> getRepoFrontmatter m (settings plugin) repo (cachedFrontmatter plugin fl) = Inr rf \<longrightarrow>
      (\<exists>sub. fst (subMenuCommandsFile m plugin item fl branchName repo originalMenu h) = Inr sub))
   \<and> calls (snd (click m plugin (ChooseFolder folder branchName) h))
       = calls h @ [(ChooseRepoToRun None branchName ''folder'' None,
                     outcome (openChooseRepoToRun m None branchName ''folder'' None))]
   \<and> calls (snd (click m plugin (ChooseFile repo branchName fl fileName) h))
       = calls h @ [(ChooseRepoToRun (map_option shareKey repo) branchName ''file'' (basenameOf fl),
                     outcome (openChooseRepoToRun m (map_option shareKey repo) branchName ''file''
                                (basenameOf fl)))]"
proof (intro conjI impI)
  assume a: "addSubMenuCommandsFolder m plugin item folder branchName originalMenu h = (r, h')"
  have ne: "folderChoices m plugin folder branchName \<noteq> []"
    and l: "last (folderChoices m plugin folder branchName)
          = actionItem (titleOther m) ''folder-symlink'' (ChooseFolder folder branchName)"
    by (simp_all add: folderChoices_def)
  from a show "\<exists>sub. r = Inr sub \<and> menus h' sub \<noteq> []
         \<and> last (shown h' (menus h' sub))
             = Some (actionItem (titleOther m) ''folder-symlink'' (ChooseFolder folder branchName))"
    using last_shown_pushItems[OF ne] l
    by (auto simp: addSubMenuCommandsFolder_run split: if_splits)
next
  assume a: "subMenuCommandsFile m plugin item fl branchName repo originalMenu h = (Inr sub', h'')"
  then obtain t rf where t: "getTitleFieldForCommand plugin fl (cachedFrontmatter plugin fl) = Inr t"
    and rf: "getRepoFrontmatter m (settings plugin) repo (cachedFrontmatter plugin fl) = Inr rf"
    by (rule subMenuCommandsFile_returns)
  let ?cs = "fileChoices m plugin fl branchName repo (replaceFirst ''.md'' [] t) rf"
  have ne: "?cs \<noteq> []"
    and l: "last ?cs = actionItem (titleOther m) ''file-input''
                       (ChooseFile repo branchName fl (replaceFirst ''.md'' [] t))"
    by (simp_all add: fileChoices_def Let_def)
  from a have "menus h'' sub' \<noteq> []
         \<and> last (shown h'' (menus h'' sub'))
             = Some (actionItem (titleOther m) ''file-input''
                       (ChooseFile repo branchName fl (replaceFirst ''.md'' [] t)))"
    using last_shown_pushItems[OF ne] l
    by (auto simp: subMenuCommandsFile_run[OF t rf] split: if_splits)
  with t show "\<exists>t. getTitleFieldForCommand plugin fl (cachedFrontmatter plugin fl) = Inr t
         \<and> menus h'' sub' \<noteq> []
         \<and> last (shown h'' (menus h'' sub'))
             = Some (actionItem (titleOther m) ''file-input''
                       (ChooseFile repo branchName fl (replaceFirst ''.md'' [] t)))"
    by blast
next
  assume "getTitleFieldForCommand plugin fl (cachedFrontmatter plugin fl) = Inr t
        \<and> getRepoFrontmatter m (settings plugin) repo (cachedFrontmatter plugin fl) = Inr rf"
  then show "\<exists>sub. fst (subMenuCommandsFile m plugin item fl branchName repo originalMenu h) = Inr sub"
    by (simp add: subMenuCommandsFile_run)
next
  show "calls (snd (click m plugin (ChooseFolder folder branchName) h))
       = calls h @ [(ChooseRepoToRun None branchName ''folder'' None,
                     outcome (openChooseRepoToRun m None branchName ''folder'' None))]"
    by (simp add: run)
next
  show "calls (snd (click m plugin (ChooseFile repo branchName fl fileName) h))
       = calls h @ [(ChooseRepoToRun (map_option shareKey repo) branchName ''file'' (basenameOf fl),
                     outcome (openChooseRepoToRun m (map_option shareKey repo) branchName ''file''
                                (basenameOf fl)))]"
    by (simp add: run)
qed

theorem submenus_end_with_chooser_witness:
  "(case addSubMenuCommandsFolder desktop (vault None [repoA, repoB]) 1 dir1 ''main'' 0 labelledMenu of
      (r, h') \<Rightarrow>
        r = Inr 1
        \<and> last (shown h' (menus h' 1))
            = Some (actionItem (titleOther desktop) ''folder-symlink'' (ChooseFolder dir1 ''main'')))
   \<and> (case subMenuCommandsFile mobile (vault (Some [(''share'', JBool True)]) [repoA]) 1 (File note1)
            ''main'' (Some repoD) 0 labelledMenu of
      (r, h') \<Rightarrow>
        r = Inr 0
        \<and> last (shown h' (menus h' 0))
            = Some (actionItem (titleOther mobile) ''file-input''
                      (ChooseFile (Some repoD) ''main'' (File note1) ''n'')))"
  using submenus_end_with_chooser[of desktop "vault None [repoA, repoB]" 1 dir1 "''main''" 0
      labelledMenu
      "fst (addSubMenuCommandsFolder desktop (vault None [repoA, repoB]) 1 dir1 ''main'' 0 labelledMenu)"
      "snd (addSubMenuCommandsFolder desktop (vault None [repoA, repoB]) 1 dir1 ''main'' 0 labelledMenu)"
      "File note1" "Some repoD" 1 labelledMenu "''n.md''" "One rfOne" "''n''"]
    submenus_end_with_chooser[of mobile "vault (Some [(''share'', JBool True)]) [repoA]" 1 dir1
      "''main''" 0 labelledMenu
      "fst (addSubMenuCommandsFolder mobile (vault (Some [(''share'', JBool True)]) [repoA]) 1 dir1
              ''main'' 0 labelledMenu)"
      "snd (addSubMenuCommandsFolder mobile (vault (Some [(''share'', JBool True)]) [repoA]) 1 dir1
              ''main'' 0 labelledMenu)"
      "File note1" "Some repoD" 0
      "snd (subMenuCommandsFile mobile (vault (Some [(''share'', JBool True)]) [repoA]) 1 (File note1)
            ''main'' (Some repoD) 0 labelledMenu)" "''n.md''" "One rfOne" "''n''"]
  by (simp add: examples model forEach_guard shown_def)

end
